theory Spec2Isabelle
  imports Main
begin

section \<open>Data model (repositories/models.py, schemas)\<close>

text \<open>
  A \<open>datetime\<close> is an abstract point in time. The columns \<open>created_at\<close>, \<open>updated_at\<close> and
  \<open>timestamp\<close> are filled by the database server and are read by none of the operations
  below; they are left out of the rows. JSONB columns (\<open>metadata\<close>, \<open>details\<close>) are
  string-keyed dictionaries of JSON values, kept as association lists in insertion order.
\<close>

type_synonym datetime = nat

datatype json = JNull | JBool bool | JInt int | JStr string | JObj "(string \<times> json) list"

type_synonym jdict = "(string \<times> json) list"

record Contract =
  c_id :: string
  title :: string
  contract_type :: string
  template_id :: string
  owner_user_id :: string
  status :: string
  metadata :: jdict
  signed_at :: "datetime option"
  deleted_at :: "datetime option"

record ContractVersion =
  v_id :: string
  v_contract_id :: string
  version :: int
  content :: string
  source :: string
  created_by :: string

record ContractParty =
  p_id :: string
  p_contract_id :: string
  role :: string
  name :: string
  email :: string
  signature_status :: string
  p_signed_at :: "datetime option"
  signing_order :: int

datatype ActivityAction =
  ActCREATED | ActUPDATED | ActGENERATED | ActSIGNED | ActSENT | ActCANCELLED

record ActivityLog =
  l_id :: string
  l_contract_id :: string
  action :: ActivityAction
  l_user_id :: string
  l_user_name :: string
  details :: jdict

datatype ContractStatus = DRAFT | GENERATED | SIGNING | SIGNED | CANCELLED | EXPIRED

text \<open>The \<open>.value\<close> of a member of the string enum \<open>ContractStatus\<close>.\<close>

fun status_value :: "ContractStatus \<Rightarrow> string" where
  "status_value DRAFT = ''DRAFT''"
| "status_value GENERATED = ''GENERATED''"
| "status_value SIGNING = ''SIGNING''"
| "status_value SIGNED = ''SIGNED''"
| "status_value CANCELLED = ''CANCELLED''"
| "status_value EXPIRED = ''EXPIRED''"

record UpdateContractRequest =
  rq_title :: "string option"

text \<open>The request field \<open>source: Literal["AI", "USER"]\<close> and its string.\<close>

datatype ContentSource = AI | USER

fun source_value :: "ContentSource \<Rightarrow> string" where
  "source_value AI = ''AI''"
| "source_value USER = ''USER''"

record UpdateContractContentRequest =
  rq_content :: string
  rq_source :: ContentSource

record UpdateContractStatusRequest =
  rq_status :: ContractStatus
  rq_reason :: "string option"

record UserContext =
  user_id :: string
  user_email :: string
  user_role :: "string option"

definition user_name :: "UserContext \<Rightarrow> string" where
  "user_name u = user_email u"

text \<open>
  \<open>ServiceError(status_code, message)\<close>. The messages are the source's, with the two
  accented letters written unaccented. \<open>ValidationError\<close> is the exception the response
  schema raises when it is given \<open>None\<close>. \<open>DatabaseError\<close> is the exception with which
  the database rejects a statement (a value that does not convert to its column's type,
  a foreign key without its row); it is no \<open>ServiceError\<close> and carries no status code.
\<close>

datatype error =
  ServiceError (status_code: nat) (message: string) | ValidationError | DatabaseError

text \<open>
  The session's view of the four tables, each in insertion order, and the number of
  primary keys the server has generated so far. \<open>gen_random_uuid\<close> is the server's
  generator: its \<open>n\<close>-th value is the argument \<open>gen n\<close> of every inserting operation.
\<close>

record database =
  contracts :: "Contract list"
  contract_versions :: "ContractVersion list"
  contract_parties :: "ContractParty list"
  activity_logs :: "ActivityLog list"
  uuid_count :: nat

type_synonym uuid_gen = "nat \<Rightarrow> string"

subsection \<open>Column types\<close>

text \<open>
  The id columns have type \<open>UUID\<close> and are read as text (\<open>as_uuid=False\<close>). A text given
  by a caller is compared with a stored id after the database has converted it to a
  UUID: several spellings denote one id, and text that is no UUID is rejected. The
  conversion belongs to the database and is a parameter \<open>uuid_in\<close> of the operations that
  take ids from a request: \<open>uuid_in x\<close> is the stored form of the id that \<open>x\<close> spells, and
  \<open>None\<close> when \<open>x\<close> spells none. The text of an id that is stored in the session is in
  stored form and denotes that id.
\<close>

type_synonym uuid_input = "string \<Rightarrow> string option"

definition stored_ids :: "database \<Rightarrow> string set" where
  "stored_ids s =
     c_id ` set (contracts s) \<union> v_id ` set (contract_versions s)
     \<union> p_id ` set (contract_parties s) \<union> l_id ` set (activity_logs s)"

definition uuid_of :: "uuid_input \<Rightarrow> database \<Rightarrow> string \<Rightarrow> string option" where
  "uuid_of uuid_in s x = (if x \<in> stored_ids s then Some x else uuid_in x)"

text \<open>
  Storing a string in a \<open>String(n)\<close> column (PostgreSQL \<open>character varying(n)\<close>): a
  string of more than \<open>n\<close> characters is rejected, unless the characters beyond the
  \<open>n\<close>-th are all spaces, in which case it is cut to \<open>n\<close> characters. A string is the
  list of its characters.
\<close>

definition varchar :: "nat \<Rightarrow> string \<Rightarrow> string option" where
  "varchar n v =
     (if length v \<le> n then Some v
      else if list_all (\<lambda>ch. ch = CHR '' '') (drop n v) then Some (take n v)
      else None)"

text \<open>The range of an \<open>Integer\<close> column (32 bits, signed).\<close>

definition in_Integer :: "int \<Rightarrow> bool" where
  "in_Integer i \<longleftrightarrow> - 2147483648 \<le> i \<and> i \<le> 2147483647"

text \<open>
  The values that come from the identity context (\<open>user_id\<close>, \<open>user_email\<close>) are verified
  by the gateway before the service is called; they are written to their columns as
  they are.
\<close>

section \<open>Repository (repositories/contracts_repository.py)\<close>

definition repo_get_contract :: "database \<Rightarrow> string \<Rightarrow> bool \<Rightarrow> Contract option" where
  "repo_get_contract s contract_id include_deleted =
     find (\<lambda>c. c_id c = contract_id \<and> (include_deleted \<or> deleted_at c = None)) (contracts s)"

definition repo_create_contract ::
  "uuid_gen \<Rightarrow> database \<Rightarrow> string \<Rightarrow> string \<Rightarrow> string \<Rightarrow> string \<Rightarrow> jdict \<Rightarrow> database \<times> Contract"
where
  "repo_create_contract gen s ttl ctype tmpl owner md =
     (let contract = \<lparr>c_id = gen (uuid_count s), title = ttl, contract_type = ctype,
                       template_id = tmpl, owner_user_id = owner, status = ''DRAFT'',
                       metadata = md, signed_at = None, deleted_at = None\<rparr>
      in (s\<lparr>contracts := contracts s @ [contract], uuid_count := Suc (uuid_count s)\<rparr>,
          contract))"

text \<open>
  The values of an \<open>UPDATE contracts SET ...\<close>: the service passes the keys \<open>title\<close>,
  \<open>status\<close> and \<open>signed_at\<close> only.
\<close>

datatype column_value = VStr string | VTime "datetime option"

fun set_column :: "Contract \<Rightarrow> string \<times> column_value \<Rightarrow> Contract" where
  "set_column c (k, VStr v) =
     (if k = ''title'' then c\<lparr>title := v\<rparr>
      else if k = ''status'' then c\<lparr>status := v\<rparr> else c)"
| "set_column c (k, VTime t) = (if k = ''signed_at'' then c\<lparr>signed_at := t\<rparr> else c)"

text \<open>
  The conversion of a value to the type of its column: \<open>title\<close> is \<open>String(500)\<close>,
  \<open>status\<close> is \<open>String(20)\<close>.
\<close>

fun column_in :: "string \<times> column_value \<Rightarrow> (string \<times> column_value) option" where
  "column_in (k, VStr v) =
     (if k = ''title'' then map_option (\<lambda>w. (k, VStr w)) (varchar 500 v)
      else if k = ''status'' then map_option (\<lambda>w. (k, VStr w)) (varchar 20 v)
      else Some (k, VStr v))"
| "column_in (k, VTime t) = Some (k, VTime t)"

definition repo_update_contract_fields ::
  "database \<Rightarrow> string \<Rightarrow> (string \<times> column_value) list \<Rightarrow> error + database"
where
  "repo_update_contract_fields s contract_id field_values =
     (if field_values = [] then Inr s
      else case those (map column_in field_values) of
             None \<Rightarrow> Inl DatabaseError
           | Some vals \<Rightarrow>
               Inr (s\<lparr>contracts :=
                        map (\<lambda>c. if c_id c = contract_id then foldl set_column c vals else c)
                            (contracts s)\<rparr>))"

text \<open>
  The \<open>INSERT\<close> of the flush is rejected when \<open>contract_id\<close> spells no UUID or the id of
  no contract row (the foreign key), when \<open>version\<close> is outside the \<open>Integer\<close> column, and
  when \<open>source\<close> does not fit \<open>String(10)\<close>. \<open>created_by\<close> is the caller's \<open>user_id\<close>.
\<close>

definition repo_add_version ::
  "uuid_input \<Rightarrow> uuid_gen \<Rightarrow> database \<Rightarrow> string \<Rightarrow> int \<Rightarrow> string \<Rightarrow> string \<Rightarrow> string
     \<Rightarrow> error + database \<times> ContractVersion"
where
  "repo_add_version uuid_in gen s contract_id ver cont src author =
     (case (uuid_of uuid_in s contract_id, varchar 10 src) of
        (Some cid, Some src') \<Rightarrow>
          if cid \<in> c_id ` set (contracts s) \<and> in_Integer ver
          then
            let contract_version = \<lparr>v_id = gen (uuid_count s), v_contract_id = cid,
                                      version = ver, content = cont, source = src',
                                      created_by = author\<rparr>
            in Inr (s\<lparr>contract_versions := contract_versions s @ [contract_version],
                     uuid_count := Suc (uuid_count s)\<rparr>,
                    contract_version)
          else Inl DatabaseError
      | _ \<Rightarrow> Inl DatabaseError)"


definition repo_get_latest_version :: "database \<Rightarrow> string \<Rightarrow> ContractVersion option" where
  "repo_get_latest_version s contract_id =
     (case sort_key (\<lambda>v. - version v)
             (filter (\<lambda>v. v_contract_id v = contract_id) (contract_versions s)) of
        [] \<Rightarrow> None
      | v # _ \<Rightarrow> Some v)"

text \<open>\<open>ORDER BY signing_order\<close>, stable on insertion order.\<close>

definition repo_list_parties :: "database \<Rightarrow> string \<Rightarrow> ContractParty list" where
  "repo_list_parties s contract_id =
     sort_key signing_order (filter (\<lambda>p. p_contract_id p = contract_id) (contract_parties s))"

definition repo_add_party ::
  "uuid_gen \<Rightarrow> database \<Rightarrow> string \<Rightarrow> string \<Rightarrow> string \<Rightarrow> string \<Rightarrow> int
     \<Rightarrow> database \<times> ContractParty"
where
  "repo_add_party gen s contract_id rl nm em ord =
     (let party = \<lparr>p_id = gen (uuid_count s), p_contract_id = contract_id, role = rl,
                    name = nm, email = em, signature_status = ''PENDING'',
                    p_signed_at = None, signing_order = ord\<rparr>
      in (s\<lparr>contract_parties := contract_parties s @ [party],
            uuid_count := Suc (uuid_count s)\<rparr>,
          party))"

text \<open>
  The \<open>DELETE\<close> and its \<open>rowcount\<close>. Both parameters are compared with UUID columns: the
  statement is rejected when one of them spells no UUID.
\<close>

definition repo_remove_party ::
  "uuid_input \<Rightarrow> database \<Rightarrow> string \<Rightarrow> string \<Rightarrow> error + database \<times> nat"
where
  "repo_remove_party uuid_in s contract_id party_id =
     (case (uuid_of uuid_in s contract_id, uuid_of uuid_in s party_id) of
        (Some cid, Some pid) \<Rightarrow>
          Inr (s\<lparr>contract_parties :=
                   filter (\<lambda>p. \<not> (p_contract_id p = cid \<and> p_id p = pid))
                          (contract_parties s)\<rparr>,
               length (filter (\<lambda>p. p_contract_id p = cid \<and> p_id p = pid)
                              (contract_parties s)))
      | _ \<Rightarrow> Inl DatabaseError)"

text \<open>\<open>coalesce(max(version), 0) + 1\<close> over the contract's rows.\<close>

definition repo_get_next_version_number :: "database \<Rightarrow> string \<Rightarrow> int" where
  "repo_get_next_version_number s contract_id =
     (case filter (\<lambda>v. v_contract_id v = contract_id) (contract_versions s) of
        [] \<Rightarrow> 0
      | v # vs \<Rightarrow> Max (set (map version (v # vs)))) + 1"

definition repo_log_activity ::
  "uuid_gen \<Rightarrow> database \<Rightarrow> string \<Rightarrow> ActivityAction \<Rightarrow> string \<Rightarrow> string \<Rightarrow> jdict
     \<Rightarrow> database \<times> ActivityLog"
where
  "repo_log_activity gen s contract_id act uid uname dtl =
     (let log = \<lparr>l_id = gen (uuid_count s), l_contract_id = contract_id, action = act,
                  l_user_id = uid, l_user_name = uname, details = dtl\<rparr>
      in (s\<lparr>activity_logs := activity_logs s @ [log], uuid_count := Suc (uuid_count s)\<rparr>,
          log))"

text \<open>
  \<open>id IN (...)\<close> on the UUID column: the query is rejected when one of the texts spells
  no UUID; otherwise a row is selected when one of them spells its id.
\<close>

definition repo_list_contracts_by_ids ::
  "uuid_input \<Rightarrow> database \<Rightarrow> string \<Rightarrow> string list \<Rightarrow> error + Contract list"
where
  "repo_list_contracts_by_ids uuid_in s owner contract_ids =
     (case those (map (uuid_of uuid_in s) contract_ids) of
        None \<Rightarrow> Inl DatabaseError
      | Some ids \<Rightarrow>
          Inr (filter (\<lambda>c. owner_user_id c = owner \<and> deleted_at c = None \<and> c_id c \<in> set ids)
                      (contracts s)))"

definition repo_all_parties_signed :: "database \<Rightarrow> string \<Rightarrow> bool" where
  "repo_all_parties_signed s contract_id =
     (let unsigned_count =
            length (filter (\<lambda>p. p_contract_id p = contract_id \<and> signature_status p \<noteq> ''SIGNED'')
                           (contract_parties s))
      in unsigned_count = 0)"

section \<open>Service (services/contracts_service.py)\<close>

definition ALLOWED_TRANSITIONS :: "(string \<times> string list) list" where
  "ALLOWED_TRANSITIONS =
     [(''DRAFT'', [''GENERATED'', ''CANCELLED'', ''EXPIRED'']),
      (''GENERATED'', [''SIGNING'', ''CANCELLED'', ''EXPIRED'']),
      (''SIGNING'', [''SIGNED'', ''CANCELLED'', ''EXPIRED'']),
      (''SIGNED'', []),
      (''CANCELLED'', []),
      (''EXPIRED'', [])]"

definition STATUS_ACTION :: "(string \<times> ActivityAction) list" where
  "STATUS_ACTION =
     [(''GENERATED'', ActGENERATED),
      (''SIGNING'', ActSENT),
      (''SIGNED'', ActSIGNED),
      (''CANCELLED'', ActCANCELLED),
      (''EXPIRED'', ActUPDATED),
      (''DRAFT'', ActUPDATED)]"

text \<open>\<open>d.get(k, default)\<close> on a dictionary.\<close>

definition dict_get :: "('k \<times> 'v) list \<Rightarrow> 'k \<Rightarrow> 'v \<Rightarrow> 'v" where
  "dict_get d k dflt = (case map_of d k of None \<Rightarrow> dflt | Some v \<Rightarrow> v)"

text \<open>Truth value of an optional string: \<open>None\<close> and the empty string are false.\<close>

fun truthy :: "string option \<Rightarrow> bool" where
  "truthy None = False"
| "truthy (Some r) = (r \<noteq> [])"

text \<open>
  A service operation returns its outcome (\<open>Inl\<close> the exception raised) together with the
  session's tables at that moment; \<open>now\<close> is the value of \<open>datetime.utcnow()\<close>.
  Where the source answers with \<open>ContractOut.model_validate(row)\<close> or
  \<open>ContractPartyOut.model_validate(row)\<close>, a field-by-field copy of the row's columns, the
  model answers with the row.
\<close>

definition update_status ::
  "uuid_gen \<Rightarrow> database \<Rightarrow> UserContext \<Rightarrow> string \<Rightarrow> UpdateContractStatusRequest \<Rightarrow> datetime
     \<Rightarrow> (error + unit) \<times> database"
where
  "update_status gen s user contract_id payload now =
     (case repo_get_contract s contract_id False of
        None \<Rightarrow> (Inl (ServiceError 404 ''Contrato no encontrado.''), s)
      | Some contract \<Rightarrow>
          if owner_user_id contract \<noteq> user_id user
          then (Inl (ServiceError 403 ''No tienes acceso a este contrato.''), s)
          else
            let current_status = status contract;
                new_status = status_value (rq_status payload)
            in if new_status = current_status
               then (Inl (ServiceError 400 ''El contrato ya tiene ese estado.''), s)
               else if new_status \<notin> set (dict_get ALLOWED_TRANSITIONS current_status [])
               then (Inl (ServiceError 400 ''Transicion de estado no permitida.''), s)
               else if new_status = ''CANCELLED'' \<and> \<not> truthy (rq_reason payload)
               then (Inl (ServiceError 400 ''El estado CANCELLED requiere reason.''), s)
               else if new_status = ''SIGNED'' \<and> repo_list_parties s contract_id = []
               then (Inl (ServiceError 409 ''No hay partes firmantes registradas.''), s)
               else if new_status = ''SIGNED'' \<and> \<not> repo_all_parties_signed s contract_id
               then (Inl (ServiceError 409 ''Todas las partes deben estar SIGNED.''), s)
               else
                 let update_fields =
                       [(''status'', VStr new_status),
                        (''signed_at'',
                         VTime (if new_status = ''SIGNED'' then Some now else None))]
                 in (case repo_update_contract_fields s contract_id update_fields of
                       Inl e \<Rightarrow> (Inl e, s)
                     | Inr s1 \<Rightarrow>
                         let (s2, log) =
                               repo_log_activity gen s1 contract_id
                                 (dict_get STATUS_ACTION new_status ActUPDATED)
                                 (user_id user) (user_name user)
                                 [(''previousStatus'', JStr current_status),
                                  (''newStatus'', JStr new_status),
                                  (''reason'', (case rq_reason payload of
                                                  None \<Rightarrow> JNull | Some r \<Rightarrow> JStr r))]
                         in (Inr (), s2)))"

definition update_contract ::
  "uuid_gen \<Rightarrow> database \<Rightarrow> UserContext \<Rightarrow> string \<Rightarrow> UpdateContractRequest
     \<Rightarrow> (error + Contract) \<times> database"
where
  "update_contract gen s user contract_id payload =
     (case repo_get_contract s contract_id False of
        None \<Rightarrow> (Inl (ServiceError 404 ''Contrato no encontrado.''), s)
      | Some contract \<Rightarrow>
          if owner_user_id contract \<noteq> user_id user
          then (Inl (ServiceError 403 ''No tienes acceso a este contrato.''), s)
          else
            let update_fields =
                  (case rq_title payload of None \<Rightarrow> [] | Some t \<Rightarrow> [(''title'', VStr t)]);
                changed =
                  (case rq_title payload of None \<Rightarrow> [] | Some t \<Rightarrow> [(''title'', JStr t)])
            in (case repo_update_contract_fields s contract_id update_fields of
                  Inl e \<Rightarrow> (Inl e, s)
                | Inr s1 \<Rightarrow>
                    let s2 = (if update_fields \<noteq> []
                              then fst (repo_log_activity gen s1 contract_id ActUPDATED
                                          (user_id user) (user_name user)
                                          [(''changedFields'', JObj changed)])
                              else s1)
                    in (case repo_get_contract s2 contract_id False of
                          None \<Rightarrow> (Inl ValidationError, s2)
                        | Some updated \<Rightarrow> (Inr updated, s2))))"

text \<open>
  The response of \<open>get_contract_detail\<close>: the contract's columns, its current content and
  its parties (\<open>signatures\<close> is always empty, \<open>documentUrl\<close> and \<open>documentHash\<close> always
  \<open>None\<close>).
\<close>

record ContractDetailOut =
  d_contract :: Contract
  d_content :: string
  d_parties :: "ContractParty list"
  d_document_url :: "string option"
  d_document_hash :: "string option"

definition get_contract_detail ::
  "database \<Rightarrow> UserContext \<Rightarrow> string \<Rightarrow> (error + ContractDetailOut) \<times> database"
where
  "get_contract_detail s user contract_id =
     (case repo_get_contract s contract_id False of
        None \<Rightarrow> (Inl (ServiceError 404 ''Contrato no encontrado.''), s)
      | Some contract \<Rightarrow>
          if owner_user_id contract \<noteq> user_id user
          then (Inl (ServiceError 403 ''No tienes acceso a este contrato.''), s)
          else
            let latest_version = repo_get_latest_version s contract_id;
                parties = repo_list_parties s contract_id;
                cont = (case latest_version of None \<Rightarrow> [] | Some lv \<Rightarrow> content lv)
            in (Inr \<lparr>d_contract = contract, d_content = cont, d_parties = parties,
                      d_document_url = None, d_document_hash = None\<rparr>, s))"

definition duplicate_contract ::
  "uuid_input \<Rightarrow> uuid_gen \<Rightarrow> database \<Rightarrow> UserContext \<Rightarrow> string
     \<Rightarrow> (error + Contract) \<times> database"
where
  "duplicate_contract uuid_in gen s user contract_id =
     (case repo_get_contract s contract_id False of
        None \<Rightarrow> (Inl (ServiceError 404 ''Contrato no encontrado.''), s)
      | Some contract \<Rightarrow>
          if owner_user_id contract \<noteq> user_id user
          then (Inl (ServiceError 403 ''No tienes acceso a este contrato.''), s)
          else
            let (s1, new_contract) =
                  repo_create_contract gen s (title contract) (contract_type contract)
                    (template_id contract) (user_id user)
                    (if metadata contract = [] then [] else metadata contract);
                latest_version = repo_get_latest_version s1 contract_id;
                added = (case latest_version of
                           None \<Rightarrow> Inr s1
                         | Some lv \<Rightarrow>
                             map_sum id fst
                               (repo_add_version uuid_in gen s1 (c_id new_contract) 1
                                  (content lv) ''USER'' (user_id user)))
            in (case added of
                  Inl e \<Rightarrow> (Inl e, s1)
                | Inr s2 \<Rightarrow>
                    let parties = repo_list_parties s2 contract_id;
                        s3 = fold (\<lambda>party st.
                                     fst (repo_add_party gen st (c_id new_contract) (role party)
                                            (name party) (email party) (signing_order party)))
                                  parties s2;
                        (s4, log) =
                          repo_log_activity gen s3 (c_id new_contract) ActCREATED
                            (user_id user) (user_name user)
                            [(''duplicatedFrom'', JStr contract_id)]
                    in (Inr new_contract, s4)))"

definition update_content ::
  "uuid_input \<Rightarrow> uuid_gen \<Rightarrow> database \<Rightarrow> UserContext \<Rightarrow> string
     \<Rightarrow> UpdateContractContentRequest \<Rightarrow> (error + unit) \<times> database"
where
  "update_content uuid_in gen s user contract_id payload =
     (case repo_get_contract s contract_id False of
        None \<Rightarrow> (Inl (ServiceError 404 ''Contrato no encontrado.''), s)
      | Some contract \<Rightarrow>
          if owner_user_id contract \<noteq> user_id user
          then (Inl (ServiceError 403 ''No tienes acceso a este contrato.''), s)
          else
            let next_version = repo_get_next_version_number s contract_id
            in (case repo_add_version uuid_in gen s contract_id next_version
                       (rq_content payload) (source_value (rq_source payload)) (user_id user) of
                  Inl e \<Rightarrow> (Inl e, s)
                | Inr (s1, cv) \<Rightarrow>
                    let act = (if source_value (rq_source payload) = ''AI''
                               then ActGENERATED else ActUPDATED);
                        (s2, log) =
                          repo_log_activity gen s1 contract_id act (user_id user) (user_name user)
                            [(''version'', JInt next_version),
                             (''source'', JStr (source_value (rq_source payload)))]
                    in (Inr (), s2)))"

text \<open>
  A sequence of \<open>update_content\<close> calls on one contract, each finished before the next;
  a call that raises leaves the tables as they were.
\<close>

fun update_content_calls ::
  "uuid_input \<Rightarrow> uuid_gen \<Rightarrow> database \<Rightarrow> UserContext \<Rightarrow> string
     \<Rightarrow> UpdateContractContentRequest list \<Rightarrow> database"
where
  "update_content_calls uuid_in gen s user contract_id [] = s"
| "update_content_calls uuid_in gen s user contract_id (payload # payloads) =
     update_content_calls uuid_in gen
       (snd (update_content uuid_in gen s user contract_id payload))
       user contract_id payloads"

text \<open>The version rows of a contract, in insertion order.\<close>

abbreviation versions_of :: "database \<Rightarrow> string \<Rightarrow> ContractVersion list" where
  "versions_of s cid \<equiv> filter (\<lambda>v. v_contract_id v = cid) (contract_versions s)"

text \<open>The columns of a party row other than its id.\<close>

abbreviation party_columns ::
  "ContractParty \<Rightarrow> string \<times> string \<times> string \<times> string \<times> string \<times> datetime option \<times> int"
where
  "party_columns p \<equiv>
     (p_contract_id p, role p, name p, email p, signature_status p, p_signed_at p, signing_order p)"

definition remove_party ::
  "uuid_input \<Rightarrow> uuid_gen \<Rightarrow> database \<Rightarrow> UserContext \<Rightarrow> string \<Rightarrow> string
     \<Rightarrow> (error + unit) \<times> database"
where
  "remove_party uuid_in gen s user contract_id party_id =
     (case repo_get_contract s contract_id False of
        None \<Rightarrow> (Inl (ServiceError 404 ''Contrato no encontrado.''), s)
      | Some contract \<Rightarrow>
          if owner_user_id contract \<noteq> user_id user
          then (Inl (ServiceError 403 ''No tienes acceso a este contrato.''), s)
          else if status contract = ''SIGNED''
          then (Inl (ServiceError 409
                       ''No se puede remover una parte de un contrato firmado.''), s)
          else
            (case repo_remove_party uuid_in s contract_id party_id of
               Inl e \<Rightarrow> (Inl e, s)
             | Inr (s1, deleted) \<Rightarrow>
                 if deleted = 0
                 then (Inl (ServiceError 404 ''Parte no encontrada.''), s1)
                 else
                   let (s2, log) =
                         repo_log_activity gen s1 contract_id ActUPDATED
                           (user_id user) (user_name user) [(''partyRemoved'', JStr party_id)]
                   in (Inr (), s2)))"

text \<open>
  The archive is the sequence of \<open>writestr\<close> calls: entry name and entry data, in the
  order written. The compression to bytes is outside the model.
\<close>

type_synonym archive = "(string \<times> string) list"

definition bulk_download ::
  "uuid_input \<Rightarrow> database \<Rightarrow> UserContext \<Rightarrow> string list \<Rightarrow> (error + archive) \<times> database"
where
  "bulk_download uuid_in s user contract_ids =
     (case repo_list_contracts_by_ids uuid_in s (user_id user) contract_ids of
        Inl e \<Rightarrow> (Inl e, s)
      | Inr resolved \<Rightarrow>
          if length resolved \<noteq> card (set contract_ids)
          then (Inl (ServiceError 404 ''Uno o mas contratos no fueron encontrados.''), s)
          else
            let content_map =
                  fold (\<lambda>contract m.
                          m(c_id contract \<mapsto>
                              (case repo_get_latest_version s (c_id contract) of
                                 None \<Rightarrow> [] | Some lv \<Rightarrow> content lv)))
                       resolved Map.empty;
                zip_file =
                  fold (\<lambda>contract z.
                          z @ [(''contract_'' @ c_id contract @ ''.html'',
                                (case content_map (c_id contract) of
                                   None \<Rightarrow> [] | Some data \<Rightarrow> data))])
                       resolved []
            in (Inr zip_file, s))"

record PublicContractViewOut =
  pv_id :: string
  pv_title :: string
  pv_content :: string
  pv_party :: ContractParty
  pv_document_url :: "string option"

definition public_view ::
  "database \<Rightarrow> string \<Rightarrow> string \<Rightarrow> (error + PublicContractViewOut) \<times> database"
where
  "public_view s contract_id token =
     (case repo_get_contract s contract_id False of
        None \<Rightarrow> (Inl (ServiceError 404 ''Contrato no encontrado.''), s)
      | Some contract \<Rightarrow>
          let latest_version = repo_get_latest_version s contract_id;
              parties = repo_list_parties s contract_id
          in (case parties of
                [] \<Rightarrow> (Inl (ServiceError 404
                               ''No hay partes registradas para este contrato.''), s)
              | first_party # _ \<Rightarrow>
                  let selected_party =
                        (case filter (\<lambda>party. signature_status party \<noteq> ''SIGNED'') parties of
                           [] \<Rightarrow> first_party
                         | party # _ \<Rightarrow> party)
                  in (Inr \<lparr>pv_id = c_id contract, pv_title = title contract,
                            pv_content = (case latest_version of
                                            None \<Rightarrow> [] | Some lv \<Rightarrow> content lv),
                            pv_party = selected_party, pv_document_url = None\<rparr>, s)))"

section \<open>Example data\<close>

text \<open>Concrete tables on which the theorems below are instantiated.\<close>

definition gen0 :: uuid_gen where
  "gen0 n = ''id'' @ replicate n (CHR ''x'')"

definition u1 :: UserContext where
  "u1 = \<lparr>user_id = ''u1'', user_email = ''u1@example.org'', user_role = None\<rparr>"

definition mk_contract :: "string \<Rightarrow> string \<Rightarrow> string \<Rightarrow> Contract" where
  "mk_contract i own st =
     \<lparr>c_id = i, title = ''Lease'', contract_type = ''rental'', template_id = ''t1'',
      owner_user_id = own, status = st, metadata = [(''city'', JStr ''Cali'')],
      signed_at = None, deleted_at = None\<rparr>"

definition mk_party :: "string \<Rightarrow> string \<Rightarrow> string \<Rightarrow> int \<Rightarrow> ContractParty" where
  "mk_party i cid st ord =
     \<lparr>p_id = i, p_contract_id = cid, role = ''HOST'', name = ''Ana'',
      email = ''ana@example.org'', signature_status = st, p_signed_at = None,
      signing_order = ord\<rparr>"

definition mk_version :: "string \<Rightarrow> string \<Rightarrow> int \<Rightarrow> string \<Rightarrow> ContractVersion" where
  "mk_version i cid n txt =
     \<lparr>v_id = i, v_contract_id = cid, version = n, content = txt, source = ''USER'',
      created_by = ''u1''\<rparr>"

definition db_signing :: database where
  "db_signing =
     \<lparr>contracts = [mk_contract ''c1'' ''u1'' ''SIGNING''], contract_versions = [],
      contract_parties = [mk_party ''p1'' ''c1'' ''SIGNED'' 1], activity_logs = [],
      uuid_count = 0\<rparr>"

definition db_draft :: database where
  "db_draft =
     \<lparr>contracts = [mk_contract ''c1'' ''u1'' ''DRAFT''], contract_versions = [],
      contract_parties = [mk_party ''p1'' ''c1'' ''SIGNED'' 1], activity_logs = [],
      uuid_count = 0\<rparr>"

definition db_v2 :: database where
  "db_v2 =
     \<lparr>contracts = [mk_contract ''c1'' ''u1'' ''DRAFT''],
      contract_versions = [mk_version ''v1'' ''c1'' 2 ''second draft''],
      contract_parties = [mk_party ''p1'' ''c1'' ''PENDING'' 1], activity_logs = [],
      uuid_count = 0\<rparr>"

definition db_two :: database where
  "db_two =
     \<lparr>contracts = [mk_contract ''c1'' ''u1'' ''DRAFT'', mk_contract ''c2'' ''u1'' ''GENERATED'',
                   mk_contract ''c3'' ''u2'' ''DRAFT''],
      contract_versions = [mk_version ''v1'' ''c1'' 1 ''first text'',
                           mk_version ''v2'' ''c1'' 2 ''second text''],
      contract_parties = [], activity_logs = [], uuid_count = 0\<rparr>"

definition db_full :: database where
  "db_full =
     \<lparr>contracts = [mk_contract ''c1'' ''u1'' ''SIGNED''],
      contract_versions = [mk_version ''v1'' ''c1'' 1 ''first text'',
                           mk_version ''v2'' ''c1'' 2 ''second text''],
      contract_parties = [mk_party ''p1'' ''c1'' ''SIGNED'' 2, mk_party ''p2'' ''c1'' ''SIGNED'' 1],
      activity_logs = [], uuid_count = 0\<rparr>"

text \<open>
  One input conversion, for the examples: it accepts the form 8-4-4-4-12 of hexadecimal
  digits in either case and answers with the lower-case form.
\<close>

definition hex_class :: "char \<Rightarrow> nat" where
  "hex_class ch =
     (if ch \<in> set ''0123456789abcdefABCDEF'' then 0 else if ch = CHR ''-'' then 1 else 2)"

definition hex_lower :: "char \<Rightarrow> char" where
  "hex_lower ch =
     (case map_of [(CHR ''A'', CHR ''a''), (CHR ''B'', CHR ''b''), (CHR ''C'', CHR ''c''),
                   (CHR ''D'', CHR ''d''), (CHR ''E'', CHR ''e''), (CHR ''F'', CHR ''f'')] ch of
        None \<Rightarrow> ch
      | Some l \<Rightarrow> l)"

definition uuid_std :: uuid_input where
  "uuid_std x =
     (if map hex_class x =
           [0, 0, 0, 0, 0, 0, 0, 0, 1, 0, 0, 0, 0, 1, 0, 0, 0, 0, 1, 0, 0, 0, 0, 1,
            0, 0, 0, 0, 0, 0, 0, 0, 0, 0, 0, 0]
      then Some (map hex_lower x) else None)"

definition db_uuid :: database where
  "db_uuid =
     \<lparr>contracts = [mk_contract ''6f1e2d3c-0000-4000-8000-00000000000a'' ''u1'' ''DRAFT'',
                   mk_contract ''6f1e2d3c-0000-4000-8000-00000000000b'' ''u1'' ''GENERATED''],
      contract_versions =
        [mk_version ''6f1e2d3c-0000-4000-8000-0000000000f1''
           ''6f1e2d3c-0000-4000-8000-00000000000a'' 1 ''first text''],
      contract_parties =
        [mk_party ''6f1e2d3c-0000-4000-8000-0000000000e1''
           ''6f1e2d3c-0000-4000-8000-00000000000a'' ''PENDING'' 1],
      activity_logs = [], uuid_count = 0\<rparr>"

text \<open>The tables after the owner has duplicated the contract \<open>c1\<close> of \<open>db_full\<close>.\<close>

definition db_dup :: database where
  "db_dup = snd (duplicate_contract uuid_std gen0 db_full u1 ''c1'')"

definition db_max :: database where
  "db_max =
     \<lparr>contracts = [mk_contract ''c1'' ''u1'' ''DRAFT''],
      contract_versions = [mk_version ''v1'' ''c1'' 2147483647 ''last text''],
      contract_parties = [], activity_logs = [], uuid_count = 0\<rparr>"

lemmas example_defs =
  gen0_def u1_def mk_contract_def mk_party_def mk_version_def db_signing_def db_draft_def
  db_v2_def db_two_def db_full_def db_uuid_def db_max_def

section \<open>Auxiliary facts\<close>

lemma find_map_preserve:
  assumes "\<And>x. P (f x) = P x"
  shows "find P (map f xs) = map_option f (find P xs)"
  using assms by (induction xs) auto

lemma all_signed_iff:
  "repo_all_parties_signed s cid \<longleftrightarrow>
     (\<forall>p\<in>set (repo_list_parties s cid). signature_status p = ''SIGNED'')"
  by (auto simp: repo_all_parties_signed_def repo_list_parties_def filter_empty_conv)

lemma status_value_length: "length (status_value x) \<le> 20"
  by (cases x) simp_all

lemma update_status_fields:
  "length st \<le> 20 \<Longrightarrow>
   repo_update_contract_fields s cid [(''status'', VStr st), (''signed_at'', VTime t)] =
     Inr (s\<lparr>contracts :=
              map (\<lambda>r. if c_id r = cid then r\<lparr>status := st, signed_at := t\<rparr> else r)
                  (contracts s)\<rparr>)"
  by (simp add: repo_update_contract_fields_def varchar_def cong: if_cong)

lemma get_contract_id:
  "repo_get_contract s cid incl = Some c \<Longrightarrow> c_id c = cid"
  by (auto simp: repo_get_contract_def find_Some_iff)

lemma get_after_status_update:
  assumes "repo_get_contract s cid False = Some c"
  shows "repo_get_contract
           (s\<lparr>contracts :=
                map (\<lambda>r. if c_id r = cid then r\<lparr>status := st, signed_at := t\<rparr> else r)
                    (contracts s)\<rparr>)
           cid False = Some (c\<lparr>status := st, signed_at := t\<rparr>)"
proof -
  let ?f = "\<lambda>r. if c_id r = cid then r\<lparr>status := st, signed_at := t\<rparr> else r"
  let ?P = "\<lambda>r. c_id r = cid \<and> (False \<or> deleted_at r = None)"
  have "find ?P (map ?f (contracts s)) = map_option ?f (find ?P (contracts s))"
    by (rule find_map_preserve) simp
  then show ?thesis
    using assms get_contract_id [OF assms]
    by (simp add: repo_get_contract_def)
qed

section \<open>Status transitions\<close>

text \<open>
  Claim C1, as amended. For a contract \<open>c\<close> that the requester owns and whose status is
  \<open>SIGNING\<close> (the one status with an edge to \<open>SIGNED\<close>), \<open>update_status\<close> to \<open>SIGNED\<close>
  succeeds if and only if \<open>c\<close> has at least one party and every party has
  \<open>signature_status = SIGNED\<close>. With no party it raises 409 "No hay partes firmantes
  registradas.", with an unsigned party 409 "Todas las partes deben estar SIGNED.", and
  in both cases the tables, so the status of \<open>c\<close>, are as before.
\<close>

theorem update_status_signed_iff_parties_signed:
  assumes "repo_get_contract s cid False = Some c"
      and "owner_user_id c = user_id user"
      and "status c = ''SIGNING''"
      and "rq_status payload = SIGNED"
  shows "((\<exists>s'. update_status gen s user cid payload now = (Inr (), s')) \<longleftrightarrow>
            (repo_list_parties s cid \<noteq> []
             \<and> (\<forall>p\<in>set (repo_list_parties s cid). signature_status p = ''SIGNED'')))
       \<and> (repo_list_parties s cid = [] \<longrightarrow>
            update_status gen s user cid payload now =
              (Inl (ServiceError 409 ''No hay partes firmantes registradas.''), s))
       \<and> (repo_list_parties s cid \<noteq> []
            \<and> (\<exists>p\<in>set (repo_list_parties s cid). signature_status p \<noteq> ''SIGNED'') \<longrightarrow>
            update_status gen s user cid payload now =
              (Inl (ServiceError 409 ''Todas las partes deben estar SIGNED.''), s))"
  using assms
  by (auto simp: update_status_def Let_def repo_log_activity_def all_signed_iff
                 dict_get_def ALLOWED_TRANSITIONS_def update_status_fields split: prod.splits)

theorem update_status_signed_witness:
  "repo_get_contract db_signing ''c1'' False = Some (mk_contract ''c1'' ''u1'' ''SIGNING'')
   \<and> owner_user_id (mk_contract ''c1'' ''u1'' ''SIGNING'') = user_id u1
   \<and> status (mk_contract ''c1'' ''u1'' ''SIGNING'') = ''SIGNING''
   \<and> map signature_status (repo_list_parties db_signing ''c1'') = [''SIGNED'']
   \<and> (\<exists>s'. update_status gen0 db_signing u1 ''c1''
              \<lparr>rq_status = SIGNED, rq_reason = None\<rparr> 7 = (Inr (), s'))"
proof -
  have h1: "repo_get_contract db_signing ''c1'' False = Some (mk_contract ''c1'' ''u1'' ''SIGNING'')"
    by (simp add: example_defs repo_get_contract_def)
  have h2: "owner_user_id (mk_contract ''c1'' ''u1'' ''SIGNING'') = user_id u1"
    by (simp add: example_defs)
  have h3: "status (mk_contract ''c1'' ''u1'' ''SIGNING'') = ''SIGNING''"
    by (simp add: example_defs)
  have h4: "rq_status \<lparr>rq_status = SIGNED, rq_reason = None\<rparr> = SIGNED"
    by simp
  have ps: "repo_list_parties db_signing ''c1'' = [mk_party ''p1'' ''c1'' ''SIGNED'' 1]"
    by (simp add: example_defs repo_list_parties_def)
  show ?thesis
    using update_status_signed_iff_parties_signed [OF h1 h2 h3 h4, of gen0 7] h1 h2 h3 ps
    by (simp add: mk_party_def)
qed

text \<open>
  Claim C1 as it is worded, for every contract the requester owns, fails on a \<open>DRAFT\<close>
  contract: its one party is signed, and the request is refused with 400 "Transicion de
  estado no permitida." by the transition table, before the parties are looked at.
\<close>

theorem update_status_signed_from_draft_counterexample:
  "repo_get_contract db_draft ''c1'' False = Some (mk_contract ''c1'' ''u1'' ''DRAFT'')
   \<and> owner_user_id (mk_contract ''c1'' ''u1'' ''DRAFT'') = user_id u1
   \<and> map signature_status (repo_list_parties db_draft ''c1'') = [''SIGNED'']
   \<and> update_status gen0 db_draft u1 ''c1'' \<lparr>rq_status = SIGNED, rq_reason = None\<rparr> 7 =
       (Inl (ServiceError 400 ''Transicion de estado no permitida.''), db_draft)"
  by (simp add: example_defs update_status_def repo_get_contract_def repo_list_parties_def
                dict_get_def ALLOWED_TRANSITIONS_def)

text \<open>
  Claim C2. For a contract \<open>c\<close> that the requester owns and a target status \<open>X\<close>,
  \<open>update_status\<close> raises a 400 error (the spec's \<open>InvalidTransition\<close>) exactly when \<open>X\<close> is
  the current status, or \<open>X\<close> is not among the allowed transitions of the current status,
  or \<open>X\<close> is \<open>CANCELLED\<close> and the reason is absent or empty. The three checks run in this
  order (each has its own message), the tables are returned as they were, and the
  transition table is the fixed one.
\<close>

theorem update_status_invalid_transition:
  assumes "repo_get_contract s cid False = Some c"
      and "owner_user_id c = user_id user"
  shows "((\<exists>m. fst (update_status gen s user cid payload now) = Inl (ServiceError 400 m)) \<longleftrightarrow>
            (status_value (rq_status payload) = status c
             \<or> status_value (rq_status payload) \<notin> set (dict_get ALLOWED_TRANSITIONS (status c) [])
             \<or> (rq_status payload = CANCELLED \<and> \<not> truthy (rq_reason payload))))
       \<and> (status_value (rq_status payload) = status c \<longrightarrow>
            update_status gen s user cid payload now =
              (Inl (ServiceError 400 ''El contrato ya tiene ese estado.''), s))
       \<and> (status_value (rq_status payload) \<noteq> status c
            \<and> status_value (rq_status payload) \<notin> set (dict_get ALLOWED_TRANSITIONS (status c) []) \<longrightarrow>
            update_status gen s user cid payload now =
              (Inl (ServiceError 400 ''Transicion de estado no permitida.''), s))
       \<and> (status_value (rq_status payload) \<noteq> status c
            \<and> status_value (rq_status payload) \<in> set (dict_get ALLOWED_TRANSITIONS (status c) [])
            \<and> rq_status payload = CANCELLED \<and> \<not> truthy (rq_reason payload) \<longrightarrow>
            update_status gen s user cid payload now =
              (Inl (ServiceError 400 ''El estado CANCELLED requiere reason.''), s))
       \<and> dict_get ALLOWED_TRANSITIONS ''DRAFT'' [] = [''GENERATED'', ''CANCELLED'', ''EXPIRED'']
       \<and> dict_get ALLOWED_TRANSITIONS ''GENERATED'' [] = [''SIGNING'', ''CANCELLED'', ''EXPIRED'']
       \<and> dict_get ALLOWED_TRANSITIONS ''SIGNING'' [] = [''SIGNED'', ''CANCELLED'', ''EXPIRED'']
       \<and> dict_get ALLOWED_TRANSITIONS ''SIGNED'' [] = []
       \<and> dict_get ALLOWED_TRANSITIONS ''CANCELLED'' [] = []
       \<and> dict_get ALLOWED_TRANSITIONS ''EXPIRED'' [] = []"
proof -
  have tbl:
    "dict_get ALLOWED_TRANSITIONS ''DRAFT'' [] = [''GENERATED'', ''CANCELLED'', ''EXPIRED'']
     \<and> dict_get ALLOWED_TRANSITIONS ''GENERATED'' [] = [''SIGNING'', ''CANCELLED'', ''EXPIRED'']
     \<and> dict_get ALLOWED_TRANSITIONS ''SIGNING'' [] = [''SIGNED'', ''CANCELLED'', ''EXPIRED'']
     \<and> dict_get ALLOWED_TRANSITIONS ''SIGNED'' [] = []
     \<and> dict_get ALLOWED_TRANSITIONS ''CANCELLED'' [] = []
     \<and> dict_get ALLOWED_TRANSITIONS ''EXPIRED'' [] = []"
    by (simp add: dict_get_def ALLOWED_TRANSITIONS_def)
  have "((\<exists>m. fst (update_status gen s user cid payload now) = Inl (ServiceError 400 m)) \<longleftrightarrow>
            (status_value (rq_status payload) = status c
             \<or> status_value (rq_status payload) \<notin> set (dict_get ALLOWED_TRANSITIONS (status c) [])
             \<or> (rq_status payload = CANCELLED \<and> \<not> truthy (rq_reason payload))))
       \<and> (status_value (rq_status payload) = status c \<longrightarrow>
            update_status gen s user cid payload now =
              (Inl (ServiceError 400 ''El contrato ya tiene ese estado.''), s))
       \<and> (status_value (rq_status payload) \<noteq> status c
            \<and> status_value (rq_status payload) \<notin> set (dict_get ALLOWED_TRANSITIONS (status c) []) \<longrightarrow>
            update_status gen s user cid payload now =
              (Inl (ServiceError 400 ''Transicion de estado no permitida.''), s))
       \<and> (status_value (rq_status payload) \<noteq> status c
            \<and> status_value (rq_status payload) \<in> set (dict_get ALLOWED_TRANSITIONS (status c) [])
            \<and> rq_status payload = CANCELLED \<and> \<not> truthy (rq_reason payload) \<longrightarrow>
            update_status gen s user cid payload now =
              (Inl (ServiceError 400 ''El estado CANCELLED requiere reason.''), s))"
    using assms
    by (cases "rq_status payload")
       (auto simp: update_status_def Let_def repo_log_activity_def update_status_fields
             split: prod.splits)
  with tbl show ?thesis by blast
qed

theorem update_status_invalid_transition_witness:
  "repo_get_contract db_signing ''c1'' False = Some (mk_contract ''c1'' ''u1'' ''SIGNING'')
   \<and> owner_user_id (mk_contract ''c1'' ''u1'' ''SIGNING'') = user_id u1
   \<and> update_status gen0 db_signing u1 ''c1'' \<lparr>rq_status = CANCELLED, rq_reason = Some []\<rparr> 7 =
       (Inl (ServiceError 400 ''El estado CANCELLED requiere reason.''), db_signing)"
proof -
  have h1: "repo_get_contract db_signing ''c1'' False = Some (mk_contract ''c1'' ''u1'' ''SIGNING'')"
    by (simp add: example_defs repo_get_contract_def)
  have h2: "owner_user_id (mk_contract ''c1'' ''u1'' ''SIGNING'') = user_id u1"
    by (simp add: example_defs)
  show ?thesis
    using update_status_invalid_transition
            [OF h1 h2, of gen0 "\<lparr>rq_status = CANCELLED, rq_reason = Some []\<rparr>" 7] h1 h2
    by (simp add: mk_contract_def)
qed

text \<open>
  Claim C3. When \<open>update_status\<close> to \<open>X\<close> succeeds on a contract \<open>c\<close> that the requester
  owns: the status of \<open>c\<close> is \<open>X\<close>; \<open>signed_at\<close> is the current time when \<open>X\<close> is \<open>SIGNED\<close>
  and \<open>None\<close> for every other \<open>X\<close>; exactly one audit entry is appended, whose action is
  given by the fixed mapping (GENERATED to GENERATED, SIGNING to SENT, SIGNED to SIGNED,
  CANCELLED to CANCELLED, EXPIRED and DRAFT to UPDATED) and whose details hold the previous
  status, the new status and the reason supplied: the string \<open>r\<close> itself when the request
  carries the reason \<open>r\<close>, and null when it carries none; versions and parties are
  untouched.
\<close>

theorem update_status_success_effects:
  assumes "repo_get_contract s cid False = Some c"
      and "owner_user_id c = user_id user"
      and "update_status gen s user cid payload now = (Inr (), s')"
  shows "repo_get_contract s' cid False =
           Some (c\<lparr>status := status_value (rq_status payload),
                   signed_at := (if rq_status payload = SIGNED then Some now else None)\<rparr>)
       \<and> contracts s' =
           map (\<lambda>r. if c_id r = cid
                     then r\<lparr>status := status_value (rq_status payload),
                            signed_at := (if rq_status payload = SIGNED then Some now else None)\<rparr>
                     else r) (contracts s)
       \<and> activity_logs s' = activity_logs s @
           [\<lparr>l_id = gen (uuid_count s), l_contract_id = cid,
             action = (case rq_status payload of
                         GENERATED \<Rightarrow> ActGENERATED | SIGNING \<Rightarrow> ActSENT
                       | SIGNED \<Rightarrow> ActSIGNED | CANCELLED \<Rightarrow> ActCANCELLED
                       | EXPIRED \<Rightarrow> ActUPDATED | DRAFT \<Rightarrow> ActUPDATED),
             l_user_id = user_id user, l_user_name = user_email user,
             details = [(''previousStatus'', JStr (status c)),
                        (''newStatus'', JStr (status_value (rq_status payload))),
                        (''reason'', (case rq_reason payload of
                                        None \<Rightarrow> JNull | Some r \<Rightarrow> JStr r))]\<rparr>]
       \<and> contract_versions s' = contract_versions s
       \<and> contract_parties s' = contract_parties s"
proof -
  let ?X = "status_value (rq_status payload)"
  let ?t = "if ?X = ''SIGNED'' then Some now else None"
  let ?s1 = "s\<lparr>contracts :=
                 map (\<lambda>r. if c_id r = cid then r\<lparr>status := ?X, signed_at := ?t\<rparr> else r)
                     (contracts s)\<rparr>"
  have t: "?t = (if rq_status payload = SIGNED then Some now else None)"
    by (cases "rq_status payload") simp_all
  have act: "dict_get STATUS_ACTION ?X ActUPDATED =
               (case rq_status payload of
                  GENERATED \<Rightarrow> ActGENERATED | SIGNING \<Rightarrow> ActSENT
                | SIGNED \<Rightarrow> ActSIGNED | CANCELLED \<Rightarrow> ActCANCELLED
                | EXPIRED \<Rightarrow> ActUPDATED | DRAFT \<Rightarrow> ActUPDATED)"
    by (cases "rq_status payload") (simp_all add: dict_get_def STATUS_ACTION_def)
  have s': "s' = fst (repo_log_activity gen ?s1 cid (dict_get STATUS_ACTION ?X ActUPDATED)
                        (user_id user) (user_name user)
                        [(''previousStatus'', JStr (status c)), (''newStatus'', JStr ?X),
                         (''reason'', (case rq_reason payload of
                                         None \<Rightarrow> JNull | Some r \<Rightarrow> JStr r))])"
    using assms
    by (auto simp: update_status_def Let_def update_status_fields status_value_length
             split: if_splits prod.splits)
  have g: "repo_get_contract ?s1 cid False = Some (c\<lparr>status := ?X, signed_at := ?t\<rparr>)"
    by (rule get_after_status_update [OF assms(1)])
  show ?thesis
    using g unfolding s' act t
    by (simp add: repo_log_activity_def repo_get_contract_def user_name_def Let_def
             cong: if_cong)
qed

theorem update_status_success_effects_witness:
  "repo_get_contract db_signing ''c1'' False = Some (mk_contract ''c1'' ''u1'' ''SIGNING'')
   \<and> owner_user_id (mk_contract ''c1'' ''u1'' ''SIGNING'') = user_id u1
   \<and> fst (update_status gen0 db_signing u1 ''c1'' \<lparr>rq_status = SIGNED, rq_reason = None\<rparr> 7)
       = Inr ()
   \<and> repo_get_contract
       (snd (update_status gen0 db_signing u1 ''c1'' \<lparr>rq_status = SIGNED, rq_reason = None\<rparr> 7))
       ''c1'' False =
       Some ((mk_contract ''c1'' ''u1'' ''SIGNING'')\<lparr>status := ''SIGNED'', signed_at := Some 7\<rparr>)
   \<and> activity_logs
       (snd (update_status gen0 db_signing u1 ''c1'' \<lparr>rq_status = SIGNED, rq_reason = None\<rparr> 7)) =
       [\<lparr>l_id = ''id'', l_contract_id = ''c1'', action = ActSIGNED, l_user_id = ''u1'',
         l_user_name = ''u1@example.org'',
         details = [(''previousStatus'', JStr ''SIGNING''), (''newStatus'', JStr ''SIGNED''),
                    (''reason'', JNull)]\<rparr>]
   \<and> fst (update_status gen0 db_signing u1 ''c1''
            \<lparr>rq_status = CANCELLED, rq_reason = Some ''client withdrew''\<rparr> 7) = Inr ()
   \<and> repo_get_contract
       (snd (update_status gen0 db_signing u1 ''c1''
               \<lparr>rq_status = CANCELLED, rq_reason = Some ''client withdrew''\<rparr> 7))
       ''c1'' False =
       Some ((mk_contract ''c1'' ''u1'' ''SIGNING'')\<lparr>status := ''CANCELLED'', signed_at := None\<rparr>)
   \<and> activity_logs
       (snd (update_status gen0 db_signing u1 ''c1''
               \<lparr>rq_status = CANCELLED, rq_reason = Some ''client withdrew''\<rparr> 7)) =
       [\<lparr>l_id = ''id'', l_contract_id = ''c1'', action = ActCANCELLED, l_user_id = ''u1'',
         l_user_name = ''u1@example.org'',
         details = [(''previousStatus'', JStr ''SIGNING''), (''newStatus'', JStr ''CANCELLED''),
                    (''reason'', JStr ''client withdrew'')]\<rparr>]"
proof -
  let ?r1 = "update_status gen0 db_signing u1 ''c1'' \<lparr>rq_status = SIGNED, rq_reason = None\<rparr> 7"
  let ?r2 = "update_status gen0 db_signing u1 ''c1''
               \<lparr>rq_status = CANCELLED, rq_reason = Some ''client withdrew''\<rparr> 7"
  have h1: "repo_get_contract db_signing ''c1'' False = Some (mk_contract ''c1'' ''u1'' ''SIGNING'')"
    by (simp add: example_defs repo_get_contract_def)
  have h2: "owner_user_id (mk_contract ''c1'' ''u1'' ''SIGNING'') = user_id u1"
    by (simp add: example_defs)
  have ok1: "fst ?r1 = Inr ()"
    by (simp add: example_defs update_status_def repo_get_contract_def repo_list_parties_def
                  repo_all_parties_signed_def repo_log_activity_def dict_get_def
                  repo_update_contract_fields_def varchar_def
                  ALLOWED_TRANSITIONS_def STATUS_ACTION_def Let_def)
  have ok2: "fst ?r2 = Inr ()"
    by (simp add: example_defs update_status_def repo_get_contract_def repo_list_parties_def
                  repo_all_parties_signed_def repo_log_activity_def dict_get_def
                  repo_update_contract_fields_def varchar_def
                  ALLOWED_TRANSITIONS_def STATUS_ACTION_def Let_def)
  have h31: "?r1 = (Inr (), snd ?r1)"
    using ok1 by (metis prod.collapse)
  have h32: "?r2 = (Inr (), snd ?r2)"
    using ok2 by (metis prod.collapse)
  have l0: "activity_logs db_signing = []" "uuid_count db_signing = 0"
    by (simp_all add: db_signing_def)
  have u: "user_id u1 = ''u1''" "user_email u1 = ''u1@example.org''" "gen0 0 = ''id''"
          "status (mk_contract ''c1'' ''u1'' ''SIGNING'') = ''SIGNING''"
    by (simp_all add: example_defs)
  show ?thesis
    using update_status_success_effects [OF h1 h2 h31]
          update_status_success_effects [OF h1 h2 h32] h1 h2 ok1 ok2
    by (simp add: l0 u)
qed

section \<open>Versions\<close>

lemma next_version_number_eq:
  "repo_get_next_version_number s cid =
     (if versions_of s cid = [] then 0 else Max (version ` set (versions_of s cid))) + 1"
  unfolding repo_get_next_version_number_def
  by (cases "versions_of s cid") (simp_all del: set_filter)

lemma uuid_of_contract:
  "cid \<in> c_id ` set (contracts s) \<Longrightarrow> uuid_of uuid_in s cid = Some cid"
  by (simp add: uuid_of_def stored_ids_def)

lemma get_contract_stored:
  "repo_get_contract s cid incl = Some c \<Longrightarrow> cid \<in> c_id ` set (contracts s)"
  by (auto simp: repo_get_contract_def find_Some_iff image_iff)

lemma add_version_inserts:
  assumes "uuid_of uuid_in s x = Some u" and "u \<in> c_id ` set (contracts s)"
      and "in_Integer n" and "length src \<le> 10"
  shows "repo_add_version uuid_in gen s x n txt src author =
           Inr (s\<lparr>contract_versions := contract_versions s @
                     [\<lparr>v_id = gen (uuid_count s), v_contract_id = u, version = n,
                       content = txt, source = src, created_by = author\<rparr>],
                   uuid_count := Suc (uuid_count s)\<rparr>,
                \<lparr>v_id = gen (uuid_count s), v_contract_id = u, version = n,
                 content = txt, source = src, created_by = author\<rparr>)"
  using assms by (simp add: repo_add_version_def varchar_def Let_def)

lemma source_value_length: "length (source_value x) \<le> 10"
  by (cases x) simp_all

lemma update_content_owned:
  assumes "repo_get_contract s cid False = Some c"
      and "owner_user_id c = user_id user"
      and "in_Integer (repo_get_next_version_number s cid)"
  shows "update_content uuid_in gen s user cid payload =
     (Inr (),
      s\<lparr>contract_versions := contract_versions s @
           [\<lparr>v_id = gen (uuid_count s), v_contract_id = cid,
             version = repo_get_next_version_number s cid, content = rq_content payload,
             source = source_value (rq_source payload), created_by = user_id user\<rparr>],
         activity_logs := activity_logs s @
           [\<lparr>l_id = gen (Suc (uuid_count s)), l_contract_id = cid,
             action = (if rq_source payload = AI then ActGENERATED else ActUPDATED),
             l_user_id = user_id user, l_user_name = user_email user,
             details = [(''version'', JInt (repo_get_next_version_number s cid)),
                        (''source'', JStr (source_value (rq_source payload)))]\<rparr>],
         uuid_count := Suc (Suc (uuid_count s))\<rparr>)"
proof -
  have st: "cid \<in> c_id ` set (contracts s)"
    by (rule get_contract_stored [OF assms(1)])
  have ai: "(source_value (rq_source payload) = ''AI'') = (rq_source payload = AI)"
    by (cases "rq_source payload") simp_all
  show ?thesis
    using assms(1,2)
    by (simp add: update_content_def Let_def ai user_name_def repo_log_activity_def
          add_version_inserts [OF uuid_of_contract [OF st] st assms(3) source_value_length])
qed

lemma update_content_overflow:
  assumes "repo_get_contract s cid False = Some c"
      and "owner_user_id c = user_id user"
      and "\<not> in_Integer (repo_get_next_version_number s cid)"
  shows "update_content uuid_in gen s user cid payload = (Inl DatabaseError, s)"
  using assms
  by (simp add: update_content_def Let_def repo_add_version_def
           split: option.splits prod.splits)

lemma next_after_append:
  assumes "versions_of s' cid = versions_of s cid @ [r]"
      and "version r = repo_get_next_version_number s cid"
  shows "repo_get_next_version_number s' cid = repo_get_next_version_number s cid + 1"
proof (cases "versions_of s cid = []")
  case True
  then show ?thesis
    using assms by (simp add: next_version_number_eq)
next
  case False
  let ?A = "version ` set (versions_of s cid)"
  have "finite ?A" "?A \<noteq> {}"
    using False by (simp_all del: set_filter)
  then have "Max (insert (Max ?A + 1) ?A) = Max ?A + 1"
    by simp
  then show ?thesis
    using assms False by (simp add: next_version_number_eq del: set_filter)
qed

lemma update_content_calls_versions:
  assumes "repo_get_contract s cid False = Some c"
      and "owner_user_id c = user_id user"
      and "- 2147483648 \<le> repo_get_next_version_number s cid"
      and "repo_get_next_version_number s cid + int (length payloads) - 1 \<le> 2147483647"
  shows "repo_get_contract (update_content_calls uuid_in gen s user cid payloads) cid False = Some c
       \<and> map version (versions_of (update_content_calls uuid_in gen s user cid payloads) cid) =
           map version (versions_of s cid) @
           [repo_get_next_version_number s cid ..
            repo_get_next_version_number s cid + int (length payloads) - 1]
       \<and> map content (versions_of (update_content_calls uuid_in gen s user cid payloads) cid) =
           map content (versions_of s cid) @ map rq_content payloads
       \<and> repo_get_next_version_number (update_content_calls uuid_in gen s user cid payloads) cid =
           repo_get_next_version_number s cid + int (length payloads)"
  using assms
proof (induction payloads arbitrary: s)
  case Nil
  then show ?case by simp
next
  case (Cons p ps)
  let ?n = "repo_get_next_version_number s cid"
  let ?r = "\<lparr>v_id = gen (uuid_count s), v_contract_id = cid, version = ?n,
             content = rq_content p, source = source_value (rq_source p),
             created_by = user_id user\<rparr>"
  let ?s1 = "snd (update_content uuid_in gen s user cid p)"
  have rng: "in_Integer ?n"
    using Cons.prems(3,4) by (simp add: in_Integer_def)
  note step = update_content_owned [OF Cons.prems(1,2) rng, where uuid_in = uuid_in and gen = gen]
  have s1: "versions_of ?s1 cid = versions_of s cid @ [?r]"
    by (simp add: step)
  have g1: "repo_get_contract ?s1 cid False = Some c"
    using Cons.prems(1) by (simp add: step repo_get_contract_def)
  have n1: "repo_get_next_version_number ?s1 cid = ?n + 1"
    by (rule next_after_append [OF s1]) simp
  have lo: "- 2147483648 \<le> repo_get_next_version_number ?s1 cid"
    using Cons.prems(3) by (simp add: n1)
  have hi: "repo_get_next_version_number ?s1 cid + int (length ps) - 1 \<le> 2147483647"
    using Cons.prems(4) by (simp add: n1)
  have up: "[?n .. ?n + int (length (p # ps)) - 1] = ?n # [?n + 1 .. ?n + 1 + int (length ps) - 1]"
    by (subst upto_rec1) (auto simp: add.commute)
  show ?case
    using Cons.IH [OF g1 Cons.prems(2) lo hi] unfolding n1 up
    by (simp add: s1)
qed

lemma latest_version_None:
  "repo_get_latest_version s cid = None \<longleftrightarrow> versions_of s cid = []"
proof -
  have "sort_key (\<lambda>v. - version v) (versions_of s cid) = [] \<longleftrightarrow> versions_of s cid = []"
    by (metis length_sort length_0_conv)
  then show ?thesis
    unfolding repo_get_latest_version_def
    by (cases "sort_key (\<lambda>v. - version v) (versions_of s cid)") simp_all
qed

lemma latest_version_Some:
  assumes "repo_get_latest_version s cid = Some v"
  shows "v \<in> set (versions_of s cid) \<and> (\<forall>w\<in>set (versions_of s cid). version w \<le> version v)"
proof -
  let ?k = "\<lambda>v. - version v"
  obtain rest where ys: "sort_key ?k (versions_of s cid) = v # rest"
    using assms by (auto simp: repo_get_latest_version_def split: list.splits)
  have "sorted (map ?k (v # rest))"
    using sorted_sort_key [of ?k "versions_of s cid"] by (simp only: ys)
  then have le: "\<forall>w\<in>set rest. version w \<le> version v"
    by auto
  have "set (v # rest) = set (versions_of s cid)"
    using set_sort [of ?k "versions_of s cid"] by (simp only: ys)
  with le show ?thesis
    by auto
qed

lemma greatest_is_last:
  assumes "map version vs = [1 .. n]" and "vs \<noteq> []"
      and "v \<in> set vs" and "\<forall>w\<in>set vs. version w \<le> version v"
  shows "v = last vs"
proof -
  have d: "distinct (map version vs)"
    by (simp add: assms(1))
  have l: "last vs \<in> set vs"
    using assms(2) by simp
  have "version v \<in> set (map version vs)"
    using assms(3) by simp
  moreover have "version (last vs) \<in> set (map version vs)"
    using l by simp
  moreover have "version (last vs) \<le> version v"
    using assms(4) l by blast
  moreover have "version (last vs) = n"
  proof -
    have "[1 .. n] \<noteq> []"
      using assms(1,2) by (metis map_is_Nil_conv)
    then have "1 \<le> n" by simp
    then have "last [1 .. n] = n"
      by (simp add: upto_rec2)
    then show ?thesis
      using assms(1,2) by (metis last_map)
  qed
  ultimately have "version v = version (last vs)"
    by (simp add: assms(1))
  then show ?thesis
    using d assms(3) l by (meson distinct_map inj_onD)
qed

lemma detail_content:
  assumes "repo_get_contract s cid False = Some c"
      and "owner_user_id c = user_id user"
  shows "\<exists>d. get_contract_detail s user cid = (Inr d, s)
            \<and> d_content d =
                (case repo_get_latest_version s cid of None \<Rightarrow> [] | Some lv \<Rightarrow> content lv)"
  using assms by (simp add: get_contract_detail_def)

lemma current_content_latest:
  "(versions_of s cid = [] \<longrightarrow>
      (case repo_get_latest_version s cid of None \<Rightarrow> [] | Some lv \<Rightarrow> content lv) = [])
   \<and> (versions_of s cid \<noteq> [] \<longrightarrow>
        (\<exists>v\<in>set (versions_of s cid).
           (\<forall>w\<in>set (versions_of s cid). version w \<le> version v)
           \<and> (case repo_get_latest_version s cid of None \<Rightarrow> [] | Some lv \<Rightarrow> content lv)
               = content v))"
proof (cases "repo_get_latest_version s cid")
  case None
  then show ?thesis
    using latest_version_None [of s cid] by simp
next
  case (Some v)
  have ne: "versions_of s cid \<noteq> []"
    using Some latest_version_None [of s cid] by (metis option.distinct(1))
  show ?thesis
    using latest_version_Some [OF Some] ne Some by (simp only: option.case) blast
qed

lemma fresh_numbers:
  assumes "repo_get_contract s cid False = Some c"
      and "owner_user_id c = user_id user"
      and lo: "- 2147483648 \<le> repo_get_next_version_number s cid"
      and hi: "repo_get_next_version_number s cid + int (length payloads) - 1 \<le> 2147483647"
      and e: "versions_of s cid = []"
  shows "map version (versions_of (update_content_calls uuid_in gen s user cid payloads) cid) =
           [1 .. int (length payloads)]"
proof -
  have n: "repo_get_next_version_number s cid = 1"
    unfolding next_version_number_eq using e by (simp only: if_True) simp
  have "map version (versions_of (update_content_calls uuid_in gen s user cid payloads) cid) =
          map version (versions_of s cid) @
           [repo_get_next_version_number s cid ..
            repo_get_next_version_number s cid + int (length payloads) - 1]"
    using update_content_calls_versions
            [OF assms(1,2) lo hi, where uuid_in = uuid_in and gen = gen]
    by blast
  then show ?thesis
    unfolding n e by simp
qed

lemma last_content:
  assumes "repo_get_contract s cid False = Some c"
      and "owner_user_id c = user_id user"
      and lo: "- 2147483648 \<le> repo_get_next_version_number s cid"
      and hi: "repo_get_next_version_number s cid + int (length payloads) - 1 \<le> 2147483647"
      and e: "versions_of s cid = []" and ne: "payloads \<noteq> []"
  shows "(case repo_get_latest_version (update_content_calls uuid_in gen s user cid payloads) cid of
            None \<Rightarrow> [] | Some lv \<Rightarrow> content lv) = rq_content (last payloads)"
proof -
  let ?f = "update_content_calls uuid_in gen s user cid payloads"
  have "map content (versions_of ?f cid) = map content (versions_of s cid) @ map rq_content payloads"
    using update_content_calls_versions
            [OF assms(1,2) lo hi, where uuid_in = uuid_in and gen = gen]
    by blast
  then have conts: "map content (versions_of ?f cid) = map rq_content payloads"
    unfolding e by simp
  have vne: "versions_of ?f cid \<noteq> []"
  proof
    assume "versions_of ?f cid = []"
    then have "map rq_content payloads = []"
      using conts by (simp only: list.map)
    then show False
      using ne by (simp only: map_is_Nil_conv)
  qed
  obtain v where v: "repo_get_latest_version ?f cid = Some v"
    using vne latest_version_None [of ?f cid] by (metis not_None_eq)
  have "v = last (versions_of ?f cid)"
    by (rule greatest_is_last
              [OF fresh_numbers [OF assms(1,2) lo hi e, where uuid_in = uuid_in and gen = gen] vne])
       (use latest_version_Some [OF v] in blast)+
  then have "content v = last (map content (versions_of ?f cid))"
    using vne by (metis last_map)
  also have "\<dots> = rq_content (last payloads)"
    unfolding conts using ne by (metis last_map)
  finally show ?thesis
    unfolding v by (simp only: option.case)
qed

text \<open>
  Claim C4, as amended. For a contract that the requester owns and a sequence of
  \<open>update_content\<close> calls made one at a time, the numbers assigned are consecutive and
  start at the greatest existing number of the contract (0 when it has no version)
  plus 1, as long as they fit the \<open>Integer\<close> column; they are 1, 2, ..., n when the
  contract had no version before the calls, and not otherwise. When the next number no
  longer fits the column, a further call fails with a database error and changes
  nothing. The current content returned by \<open>get_contract_detail\<close> is the content of a
  version whose number is maximal among the contract's versions, and the empty string
  when the contract has no version; after the calls on a contract that had no version
  it is the content of the last call.
\<close>

theorem update_content_version_numbers:
  assumes "repo_get_contract s cid False = Some c"
      and "owner_user_id c = user_id user"
      and "- 2147483648 \<le> repo_get_next_version_number s cid"
      and "repo_get_next_version_number s cid + int (length payloads) - 1 \<le> 2147483647"
  shows "map version (versions_of (update_content_calls uuid_in gen s user cid payloads) cid) =
           map version (versions_of s cid) @
           [repo_get_next_version_number s cid ..
            repo_get_next_version_number s cid + int (length payloads) - 1]
       \<and> repo_get_next_version_number s cid =
           (if versions_of s cid = [] then 0 else Max (version ` set (versions_of s cid))) + 1
       \<and> (versions_of s cid = [] \<longrightarrow>
            map version (versions_of (update_content_calls uuid_in gen s user cid payloads) cid) =
              [1 .. int (length payloads)])
       \<and> (\<exists>d. get_contract_detail (update_content_calls uuid_in gen s user cid payloads) user cid =
                 (Inr d, update_content_calls uuid_in gen s user cid payloads)
              \<and> (versions_of (update_content_calls uuid_in gen s user cid payloads) cid = [] \<longrightarrow>
                   d_content d = [])
              \<and> (versions_of (update_content_calls uuid_in gen s user cid payloads) cid \<noteq> [] \<longrightarrow>
                   (\<exists>v\<in>set (versions_of (update_content_calls uuid_in gen s user cid payloads) cid).
                      (\<forall>w\<in>set (versions_of (update_content_calls uuid_in gen s user cid payloads) cid).
                         version w \<le> version v)
                      \<and> d_content d = content v))
              \<and> (versions_of s cid = [] \<and> payloads \<noteq> [] \<longrightarrow>
                   d_content d = rq_content (last payloads)))
       \<and> (repo_get_next_version_number s cid + int (length payloads) > 2147483647 \<longrightarrow>
            update_content uuid_in gen (update_content_calls uuid_in gen s user cid payloads)
              user cid payload =
              (Inl DatabaseError, update_content_calls uuid_in gen s user cid payloads))"
proof -
  let ?f = "update_content_calls uuid_in gen s user cid payloads"
  let ?cur = "case repo_get_latest_version ?f cid of None \<Rightarrow> [] | Some lv \<Rightarrow> content lv"
  note run = update_content_calls_versions [OF assms, where uuid_in = uuid_in and gen = gen]
  have g: "repo_get_contract ?f cid False = Some c"
    using run by (rule conjunct1)
  have nums: "map version (versions_of ?f cid) =
                map version (versions_of s cid) @
                [repo_get_next_version_number s cid ..
                 repo_get_next_version_number s cid + int (length payloads) - 1]"
    using run by (elim conjE)
  have nxt: "repo_get_next_version_number ?f cid =
               repo_get_next_version_number s cid + int (length payloads)"
    using run by (elim conjE)
  obtain d where d: "get_contract_detail ?f user cid = (Inr d, ?f)" and dc: "d_content d = ?cur"
    using detail_content [OF g assms(2)] by blast
  have p4: "get_contract_detail ?f user cid = (Inr d, ?f)
              \<and> (versions_of ?f cid = [] \<longrightarrow> d_content d = [])
              \<and> (versions_of ?f cid \<noteq> [] \<longrightarrow>
                   (\<exists>v\<in>set (versions_of ?f cid).
                      (\<forall>w\<in>set (versions_of ?f cid). version w \<le> version v)
                      \<and> d_content d = content v))
              \<and> (versions_of s cid = [] \<and> payloads \<noteq> [] \<longrightarrow>
                   d_content d = rq_content (last payloads))"
    unfolding dc
    using d current_content_latest [where s = ?f and cid = cid]
          last_content [OF assms, where uuid_in = uuid_in and gen = gen]
    by (intro conjI impI; (elim conjE)?; assumption?) blast+
  show ?thesis
  proof (intro conjI)
    show "map version (versions_of ?f cid) =
            map version (versions_of s cid) @
            [repo_get_next_version_number s cid ..
             repo_get_next_version_number s cid + int (length payloads) - 1]"
      by (rule nums)
    show "repo_get_next_version_number s cid =
            (if versions_of s cid = [] then 0 else Max (version ` set (versions_of s cid))) + 1"
      by (rule next_version_number_eq)
    show "versions_of s cid = [] \<longrightarrow> map version (versions_of ?f cid) = [1 .. int (length payloads)]"
      using fresh_numbers [OF assms, where uuid_in = uuid_in and gen = gen] by (rule impI)
    show "\<exists>d. get_contract_detail ?f user cid = (Inr d, ?f)
              \<and> (versions_of ?f cid = [] \<longrightarrow> d_content d = [])
              \<and> (versions_of ?f cid \<noteq> [] \<longrightarrow>
                   (\<exists>v\<in>set (versions_of ?f cid).
                      (\<forall>w\<in>set (versions_of ?f cid). version w \<le> version v)
                      \<and> d_content d = content v))
              \<and> (versions_of s cid = [] \<and> payloads \<noteq> [] \<longrightarrow>
                   d_content d = rq_content (last payloads))"
      using p4 by (rule exI)
    show "repo_get_next_version_number s cid + int (length payloads) > 2147483647 \<longrightarrow>
            update_content uuid_in gen ?f user cid payload = (Inl DatabaseError, ?f)"
    proof
      assume "repo_get_next_version_number s cid + int (length payloads) > 2147483647"
      then have "\<not> in_Integer (repo_get_next_version_number ?f cid)"
        unfolding nxt by (simp add: in_Integer_def)
      then show "update_content uuid_in gen ?f user cid payload = (Inl DatabaseError, ?f)"
        by (rule update_content_overflow [OF g assms(2)])
    qed
  qed
qed

lemma db_dup_eq:
  "db_dup =
     \<lparr>contracts = [mk_contract ''c1'' ''u1'' ''SIGNED'', mk_contract ''id'' ''u1'' ''DRAFT''],
      contract_versions = [mk_version ''v1'' ''c1'' 1 ''first text'',
                           mk_version ''v2'' ''c1'' 2 ''second text'',
                           mk_version ''idx'' ''id'' 1 ''second text''],
      contract_parties = [mk_party ''p1'' ''c1'' ''SIGNED'' 2, mk_party ''p2'' ''c1'' ''SIGNED'' 1,
                          mk_party ''idxx'' ''id'' ''PENDING'' 1,
                          mk_party ''idxxx'' ''id'' ''PENDING'' 2],
      activity_logs = [\<lparr>l_id = ''idxxxx'', l_contract_id = ''id'', action = ActCREATED,
                        l_user_id = ''u1'', l_user_name = ''u1@example.org'',
                        details = [(''duplicatedFrom'', JStr ''c1'')]\<rparr>],
      uuid_count = 5\<rparr>"
  by (simp add: db_dup_def duplicate_contract_def example_defs repo_get_contract_def
        repo_create_contract_def repo_get_latest_version_def repo_add_version_def
        repo_list_parties_def repo_add_party_def repo_log_activity_def user_name_def
        uuid_of_def stored_ids_def varchar_def in_Integer_def Let_def numeral_eq_Suc)

theorem update_content_version_numbers_witness:
  "repo_get_contract db_draft ''c1'' False = Some (mk_contract ''c1'' ''u1'' ''DRAFT'')
   \<and> owner_user_id (mk_contract ''c1'' ''u1'' ''DRAFT'') = user_id u1
   \<and> repo_get_next_version_number db_draft ''c1'' = 1
   \<and> versions_of db_draft ''c1'' = []
   \<and> map version
       (versions_of
          (update_content_calls uuid_std gen0 db_draft u1 ''c1''
             [\<lparr>rq_content = ''first text'', rq_source = AI\<rparr>,
              \<lparr>rq_content = ''second text'', rq_source = USER\<rparr>]) ''c1'') = [1, 2]
   \<and> (\<exists>d. get_contract_detail
              (update_content_calls uuid_std gen0 db_draft u1 ''c1''
                 [\<lparr>rq_content = ''first text'', rq_source = AI\<rparr>,
                  \<lparr>rq_content = ''second text'', rq_source = USER\<rparr>]) u1 ''c1'' =
             (Inr d, update_content_calls uuid_std gen0 db_draft u1 ''c1''
                       [\<lparr>rq_content = ''first text'', rq_source = AI\<rparr>,
                        \<lparr>rq_content = ''second text'', rq_source = USER\<rparr>])
          \<and> d_content d = ''second text'')
   \<and> repo_get_contract db_dup ''id'' False = Some (mk_contract ''id'' ''u1'' ''DRAFT'')
   \<and> repo_get_next_version_number db_dup ''id'' = 2
   \<and> map version
       (versions_of
          (update_content_calls uuid_std gen0 db_dup u1 ''id''
             [\<lparr>rq_content = ''first edit'', rq_source = USER\<rparr>,
              \<lparr>rq_content = ''second edit'', rq_source = AI\<rparr>]) ''id'') = [1, 2, 3]
   \<and> repo_get_contract db_max ''c1'' False = Some (mk_contract ''c1'' ''u1'' ''DRAFT'')
   \<and> repo_get_next_version_number db_max ''c1'' = 2147483648
   \<and> update_content uuid_std gen0 db_max u1 ''c1''
        \<lparr>rq_content = ''one more'', rq_source = USER\<rparr> = (Inl DatabaseError, db_max)"
proof -
  let ?ps = "[\<lparr>rq_content = ''first text'', rq_source = AI\<rparr>,
              \<lparr>rq_content = ''second text'', rq_source = USER\<rparr>]"
  let ?qs = "[\<lparr>rq_content = ''first edit'', rq_source = USER\<rparr>,
              \<lparr>rq_content = ''second edit'', rq_source = AI\<rparr>]"
  let ?f = "update_content_calls uuid_std gen0 db_draft u1 ''c1'' ?ps"
  have h1: "repo_get_contract db_draft ''c1'' False = Some (mk_contract ''c1'' ''u1'' ''DRAFT'')"
    by (simp add: example_defs repo_get_contract_def)
  have h2: "owner_user_id (mk_contract ''c1'' ''u1'' ''DRAFT'') = user_id u1"
    by (simp add: example_defs)
  have e: "versions_of db_draft ''c1'' = []"
    by (simp add: db_draft_def)
  have n1: "repo_get_next_version_number db_draft ''c1'' = 1"
    by (simp add: db_draft_def repo_get_next_version_number_def)
  have lo1: "- 2147483648 \<le> repo_get_next_version_number db_draft ''c1''"
    unfolding n1 by simp
  have hi1: "repo_get_next_version_number db_draft ''c1'' + int (length ?ps) - 1 \<le> 2147483647"
    unfolding n1 by simp
  have two: "[1 .. int (length ?ps)] = [1, 2]"
    by (simp add: upto_rec1)
  note w = update_content_version_numbers
             [OF h1 h2 lo1 hi1, where uuid_in = uuid_std and gen = gen0]
  have nums: "map version (versions_of ?f ''c1'') = [1, 2]"
    using w e unfolding two by blast
  obtain d where d: "get_contract_detail ?f u1 ''c1'' = (Inr d, ?f)"
    and dl: "versions_of db_draft ''c1'' = [] \<and> ?ps \<noteq> [] \<longrightarrow> d_content d = rq_content (last ?ps)"
    using w by blast
  have "d_content d = ''second text''"
    using dl e by simp
  with d have det: "\<exists>d. get_contract_detail ?f u1 ''c1'' = (Inr d, ?f) \<and> d_content d = ''second text''"
    by blast
  have k1: "repo_get_contract db_dup ''id'' False = Some (mk_contract ''id'' ''u1'' ''DRAFT'')"
    by (simp add: db_dup_eq mk_contract_def repo_get_contract_def)
  have k2: "owner_user_id (mk_contract ''id'' ''u1'' ''DRAFT'') = user_id u1"
    by (simp add: example_defs)
  have n2: "repo_get_next_version_number db_dup ''id'' = 2"
    by (simp add: db_dup_eq mk_version_def repo_get_next_version_number_def)
  have lo2: "- 2147483648 \<le> repo_get_next_version_number db_dup ''id''"
    unfolding n2 by simp
  have hi2: "repo_get_next_version_number db_dup ''id'' + int (length ?qs) - 1 \<le> 2147483647"
    unfolding n2 by simp
  have old: "map version (versions_of db_dup ''id'') = [1]"
    by (simp add: db_dup_eq mk_version_def)
  have three: "[2 .. 2 + int (length ?qs) - 1] = [2, 3]"
    by (simp add: upto_rec1)
  have dup: "map version (versions_of (update_content_calls uuid_std gen0 db_dup u1 ''id'' ?qs) ''id'')
               = [1, 2, 3]"
    using update_content_version_numbers
            [OF k1 k2 lo2 hi2, where uuid_in = uuid_std and gen = gen0]
    unfolding n2 old three by simp
  have m1: "repo_get_contract db_max ''c1'' False = Some (mk_contract ''c1'' ''u1'' ''DRAFT'')"
    by (simp add: example_defs repo_get_contract_def)
  have n3: "repo_get_next_version_number db_max ''c1'' = 2147483648"
    by (simp add: db_max_def mk_version_def repo_get_next_version_number_def)
  have lo3: "- 2147483648 \<le> repo_get_next_version_number db_max ''c1''"
    unfolding n3 by simp
  have hi3: "repo_get_next_version_number db_max ''c1'' + int (length ([] :: UpdateContractContentRequest list)) - 1
               \<le> 2147483647"
    unfolding n3 by simp
  have ovf: "update_content uuid_std gen0 db_max u1 ''c1''
               \<lparr>rq_content = ''one more'', rq_source = USER\<rparr> = (Inl DatabaseError, db_max)"
    using update_content_version_numbers
            [OF m1 h2 lo3 hi3, where uuid_in = uuid_std and gen = gen0
               and payload = "\<lparr>rq_content = ''one more'', rq_source = USER\<rparr>"]
    unfolding n3 by simp
  show ?thesis
    using h1 h2 n1 e nums det k1 n2 dup m1 n3 ovf by (intro conjI)
qed

text \<open>
  Claim C4 as it is worded fails on a contract that has a version before the calls. The
  owner duplicates the contract \<open>c1\<close>; the duplicate \<open>id\<close> receives the copied content
  as its version 1. The two \<open>update_content\<close> calls that follow on the duplicate succeed
  and are assigned the numbers 2 and 3, not 1 and 2.
\<close>

theorem update_content_numbers_counterexample:
  "fst (duplicate_contract uuid_std gen0 db_full u1 ''c1'') =
     Inr (mk_contract ''id'' ''u1'' ''DRAFT'')
   \<and> db_dup = snd (duplicate_contract uuid_std gen0 db_full u1 ''c1'')
   \<and> map v_contract_id (contract_versions db_dup) = [''c1'', ''c1'', ''id'']
   \<and> map version (contract_versions db_dup) = [1, 2, 1]
   \<and> fst (update_content uuid_std gen0 db_dup u1 ''id''
             \<lparr>rq_content = ''first edit'', rq_source = USER\<rparr>) = Inr ()
   \<and> fst (update_content uuid_std gen0
             (snd (update_content uuid_std gen0 db_dup u1 ''id''
                     \<lparr>rq_content = ''first edit'', rq_source = USER\<rparr>))
             u1 ''id'' \<lparr>rq_content = ''second edit'', rq_source = AI\<rparr>) = Inr ()
   \<and> map v_contract_id
       (contract_versions
          (update_content_calls uuid_std gen0 db_dup u1 ''id''
             [\<lparr>rq_content = ''first edit'', rq_source = USER\<rparr>,
              \<lparr>rq_content = ''second edit'', rq_source = AI\<rparr>])) =
       [''c1'', ''c1'', ''id'', ''id'', ''id'']
   \<and> map version
       (contract_versions
          (update_content_calls uuid_std gen0 db_dup u1 ''id''
             [\<lparr>rq_content = ''first edit'', rq_source = USER\<rparr>,
              \<lparr>rq_content = ''second edit'', rq_source = AI\<rparr>])) = [1, 2, 1, 2, 3]
   \<and> map content
       (contract_versions
          (update_content_calls uuid_std gen0 db_dup u1 ''id''
             [\<lparr>rq_content = ''first edit'', rq_source = USER\<rparr>,
              \<lparr>rq_content = ''second edit'', rq_source = AI\<rparr>])) =
       [''first text'', ''second text'', ''second text'', ''first edit'', ''second edit'']
   \<and> map details
       (activity_logs
          (update_content_calls uuid_std gen0 db_dup u1 ''id''
             [\<lparr>rq_content = ''first edit'', rq_source = USER\<rparr>,
              \<lparr>rq_content = ''second edit'', rq_source = AI\<rparr>])) =
       [[(''duplicatedFrom'', JStr ''c1'')],
        [(''version'', JInt 2), (''source'', JStr ''USER'')],
        [(''version'', JInt 3), (''source'', JStr ''AI'')]]"
proof -
  have d: "fst (duplicate_contract uuid_std gen0 db_full u1 ''c1'') =
             Inr (mk_contract ''id'' ''u1'' ''DRAFT'')"
    by (simp add: duplicate_contract_def example_defs repo_get_contract_def
          repo_create_contract_def repo_get_latest_version_def repo_add_version_def
          repo_list_parties_def repo_add_party_def repo_log_activity_def user_name_def
          uuid_of_def stored_ids_def varchar_def in_Integer_def Let_def numeral_eq_Suc)
  have rest:
    "map v_contract_id (contract_versions db_dup) = [''c1'', ''c1'', ''id'']
   \<and> map version (contract_versions db_dup) = [1, 2, 1]
   \<and> fst (update_content uuid_std gen0 db_dup u1 ''id''
             \<lparr>rq_content = ''first edit'', rq_source = USER\<rparr>) = Inr ()
   \<and> fst (update_content uuid_std gen0
             (snd (update_content uuid_std gen0 db_dup u1 ''id''
                     \<lparr>rq_content = ''first edit'', rq_source = USER\<rparr>))
             u1 ''id'' \<lparr>rq_content = ''second edit'', rq_source = AI\<rparr>) = Inr ()
   \<and> map v_contract_id
       (contract_versions
          (update_content_calls uuid_std gen0 db_dup u1 ''id''
             [\<lparr>rq_content = ''first edit'', rq_source = USER\<rparr>,
              \<lparr>rq_content = ''second edit'', rq_source = AI\<rparr>])) =
       [''c1'', ''c1'', ''id'', ''id'', ''id'']
   \<and> map version
       (contract_versions
          (update_content_calls uuid_std gen0 db_dup u1 ''id''
             [\<lparr>rq_content = ''first edit'', rq_source = USER\<rparr>,
              \<lparr>rq_content = ''second edit'', rq_source = AI\<rparr>])) = [1, 2, 1, 2, 3]
   \<and> map content
       (contract_versions
          (update_content_calls uuid_std gen0 db_dup u1 ''id''
             [\<lparr>rq_content = ''first edit'', rq_source = USER\<rparr>,
              \<lparr>rq_content = ''second edit'', rq_source = AI\<rparr>])) =
       [''first text'', ''second text'', ''second text'', ''first edit'', ''second edit'']
   \<and> map details
       (activity_logs
          (update_content_calls uuid_std gen0 db_dup u1 ''id''
             [\<lparr>rq_content = ''first edit'', rq_source = USER\<rparr>,
              \<lparr>rq_content = ''second edit'', rq_source = AI\<rparr>])) =
       [[(''duplicatedFrom'', JStr ''c1'')],
        [(''version'', JInt 2), (''source'', JStr ''USER'')],
        [(''version'', JInt 3), (''source'', JStr ''AI'')]]"
    by (simp add: db_dup_eq update_content_def example_defs repo_get_contract_def
          repo_get_next_version_number_def repo_add_version_def repo_log_activity_def
          user_name_def uuid_of_def stored_ids_def varchar_def in_Integer_def Let_def)
  show ?thesis
    using d rest db_dup_def by (intro conjI) (simp_all only:)
qed




section \<open>Bulk download\<close>

lemma fold_content_map:
  "fold (\<lambda>contract m. m(c_id contract \<mapsto> g (c_id contract))) xs m0 k =
     (if k \<in> c_id ` set xs then Some (g k) else m0 k)"
  by (induction xs arbitrary: m0) auto

lemma fold_snoc_map:
  "fold (\<lambda>x z. z @ [h x]) xs acc = acc @ map h xs"
  by (induction xs arbitrary: acc) auto

lemma those_map_None:
  "those (map f xs) = None \<longleftrightarrow> (\<exists>x\<in>set xs. f x = None)"
  by (induction xs) (auto split: option.splits)

lemma those_map_Some:
  "those (map f xs) = Some ys \<Longrightarrow> (y \<in> set ys \<longleftrightarrow> (\<exists>x\<in>set xs. f x = Some y))"
  by (induction xs arbitrary: ys) (auto split: option.splits)

lemma list_contracts_by_ids_Inl:
  "repo_list_contracts_by_ids uuid_in s owner ids = Inl e \<longleftrightarrow>
     e = DatabaseError \<and> (\<exists>x\<in>set ids. uuid_of uuid_in s x = None)"
  by (auto simp: repo_list_contracts_by_ids_def those_map_None [symmetric]
           split: option.splits)

lemma list_contracts_by_ids_Inr:
  "repo_list_contracts_by_ids uuid_in s owner ids = Inr rs \<longleftrightarrow>
     (\<forall>x\<in>set ids. uuid_of uuid_in s x \<noteq> None)
     \<and> rs = filter (\<lambda>c. owner_user_id c = owner \<and> deleted_at c = None
                        \<and> (\<exists>x\<in>set ids. uuid_of uuid_in s x = Some (c_id c)))
                   (contracts s)"
proof (cases "those (map (uuid_of uuid_in s) ids)")
  case None
  then show ?thesis
    using those_map_None [of "uuid_of uuid_in s" ids]
    by (auto simp: repo_list_contracts_by_ids_def)
next
  case (Some ys)
  have all: "\<forall>x\<in>set ids. uuid_of uuid_in s x \<noteq> None"
    using Some those_map_None [of "uuid_of uuid_in s" ids] by auto
  have "filter (\<lambda>c. owner_user_id c = owner \<and> deleted_at c = None \<and> c_id c \<in> set ys)
               (contracts s) =
        filter (\<lambda>c. owner_user_id c = owner \<and> deleted_at c = None
                        \<and> (\<exists>x\<in>set ids. uuid_of uuid_in s x = Some (c_id c)))
               (contracts s)"
    by (rule filter_cong [OF refl]) (simp add: those_map_Some [OF Some])
  then show ?thesis
    using Some all by (auto simp: repo_list_contracts_by_ids_def)
qed

text \<open>
  Claim C8, as amended. When one of the requested ids spells no UUID, the query is
  rejected and \<open>bulk_download\<close> fails with a database error. Otherwise the contracts
  resolved are the owner's contracts, not deleted, whose id one of the requested ids
  spells, and \<open>bulk_download\<close> raises 404 (the spec's \<open>NotFound\<close>), returning no archive,
  exactly when their number differs from the number of distinct requested texts. On
  success the archive has one entry per resolved contract, in the order resolved, named
  \<open>contract_<id>.html\<close> with the stored id, whose data is the content of the contract's
  latest version, the empty string for a contract without versions. The tables are not
  changed in any case.
\<close>

theorem bulk_download_outcomes:
  "((\<exists>x\<in>set ids. uuid_of uuid_in s x = None) \<longrightarrow>
      repo_list_contracts_by_ids uuid_in s (user_id user) ids = Inl DatabaseError
      \<and> bulk_download uuid_in s user ids = (Inl DatabaseError, s))
   \<and> ((\<forall>x\<in>set ids. uuid_of uuid_in s x \<noteq> None) \<longrightarrow>
        (\<exists>rs. repo_list_contracts_by_ids uuid_in s (user_id user) ids = Inr rs))
   \<and> (repo_list_contracts_by_ids uuid_in s (user_id user) ids = Inr rs \<longrightarrow>
        rs = filter (\<lambda>c. owner_user_id c = user_id user \<and> deleted_at c = None
                          \<and> (\<exists>x\<in>set ids. uuid_of uuid_in s x = Some (c_id c)))
                    (contracts s)
        \<and> (fst (bulk_download uuid_in s user ids) =
              Inl (ServiceError 404 ''Uno o mas contratos no fueron encontrados.'')
            \<longleftrightarrow> length rs \<noteq> length (remdups ids))
        \<and> (length rs \<noteq> length (remdups ids) \<longrightarrow>
             bulk_download uuid_in s user ids =
               (Inl (ServiceError 404 ''Uno o mas contratos no fueron encontrados.''), s))
        \<and> (length rs = length (remdups ids) \<longrightarrow>
             bulk_download uuid_in s user ids =
               (Inr (map (\<lambda>c. (''contract_'' @ c_id c @ ''.html'',
                               (case repo_get_latest_version s (c_id c) of
                                  None \<Rightarrow> [] | Some lv \<Rightarrow> content lv)))
                         rs), s))
        \<and> (\<forall>c\<in>set rs.
              versions_of s (c_id c) = [] \<longrightarrow>
              (case repo_get_latest_version s (c_id c) of None \<Rightarrow> [] | Some lv \<Rightarrow> content lv)
                = []))
   \<and> (fst (bulk_download uuid_in s user ids) =
         Inl (ServiceError 404 ''Uno o mas contratos no fueron encontrados.'')
       \<longleftrightarrow> (\<exists>rs. repo_list_contracts_by_ids uuid_in s (user_id user) ids = Inr rs
                 \<and> length rs \<noteq> length (remdups ids)))"
proof -
  let ?res = "repo_list_contracts_by_ids uuid_in s (user_id user) ids"
  let ?g = "\<lambda>i. case repo_get_latest_version s i of None \<Rightarrow> [] | Some lv \<Rightarrow> content lv"
  let ?nf = "Inl (ServiceError 404 ''Uno o mas contratos no fueron encontrados.'')
               :: error + archive"
  have card: "card (set ids) = length (remdups ids)"
    by (simp add: length_remdups_card_conv)
  have m: "map (\<lambda>contract. (''contract_'' @ c_id contract @ ''.html'',
              (case fold (\<lambda>contract m. m(c_id contract \<mapsto> ?g (c_id contract))) xs Map.empty
                      (c_id contract) of None \<Rightarrow> [] | Some data \<Rightarrow> data))) xs =
           map (\<lambda>c. (''contract_'' @ c_id c @ ''.html'', ?g (c_id c))) xs" for xs
  proof (rule map_cong [OF refl])
    fix x assume x: "x \<in> set xs"
    have "fold (\<lambda>contract m. m(c_id contract \<mapsto> ?g (c_id contract))) xs Map.empty (c_id x)
            = Some (?g (c_id x))"
      using x by (subst fold_content_map [where g = ?g]) simp
    then show "(''contract_'' @ c_id x @ ''.html'',
                (case fold (\<lambda>contract m. m(c_id contract \<mapsto> ?g (c_id contract))) xs Map.empty
                        (c_id x) of None \<Rightarrow> [] | Some data \<Rightarrow> data)) =
               (''contract_'' @ c_id x @ ''.html'', ?g (c_id x))"
      by (simp only: option.case)
  qed
  have err: "?res = Inl DatabaseError \<and> bulk_download uuid_in s user ids = (Inl DatabaseError, s)"
    if "\<exists>x\<in>set ids. uuid_of uuid_in s x = None"
  proof -
    have "?res = Inl DatabaseError"
      using that by (simp add: list_contracts_by_ids_Inl)
    then show ?thesis
      by (simp add: bulk_download_def)
  qed
  have tot: "\<exists>rs. ?res = Inr rs" if "\<forall>x\<in>set ids. uuid_of uuid_in s x \<noteq> None"
    using that by (simp add: list_contracts_by_ids_Inr)
  have ok: "bulk_download uuid_in s user ids =
              (Inr (map (\<lambda>c. (''contract_'' @ c_id c @ ''.html'', ?g (c_id c))) xs), s)"
    if "?res = Inr xs" "length xs = length (remdups ids)" for xs
    using that m [of xs] by (simp add: bulk_download_def card Let_def fold_snoc_map)
  have bad: "bulk_download uuid_in s user ids = (?nf, s)"
    if "?res = Inr xs" "length xs \<noteq> length (remdups ids)" for xs
    using that by (simp add: bulk_download_def card)
  have none: "\<forall>c\<in>set xs. versions_of s (c_id c) = [] \<longrightarrow> ?g (c_id c) = []" for xs
  proof (intro ballI impI)
    fix c assume "versions_of s (c_id c) = []"
    then have "repo_get_latest_version s (c_id c) = None"
      by (simp only: latest_version_None)
    then show "?g (c_id c) = []"
      by (simp only: option.case)
  qed
  have iff: "fst (bulk_download uuid_in s user ids) = ?nf \<longleftrightarrow> length xs \<noteq> length (remdups ids)"
    if "?res = Inr xs" for xs
    using ok [OF that] bad [OF that] by (cases "length xs = length (remdups ids)") simp_all
  have shape: "xs = filter (\<lambda>c. owner_user_id c = user_id user \<and> deleted_at c = None
                          \<and> (\<exists>x\<in>set ids. uuid_of uuid_in s x = Some (c_id c)))
                    (contracts s)"
    if "?res = Inr xs" for xs
    using that by (simp add: list_contracts_by_ids_Inr)
  have glob: "fst (bulk_download uuid_in s user ids) = ?nf
       \<longleftrightarrow> (\<exists>rs. ?res = Inr rs \<and> length rs \<noteq> length (remdups ids))"
  proof (cases ?res)
    case (Inl e)
    then have "e = DatabaseError"
      by (simp add: list_contracts_by_ids_Inl)
    with Inl show ?thesis
      by (simp add: bulk_download_def)
  next
    case (Inr xs)
    then show ?thesis
      using iff [OF Inr] by simp
  qed
  show ?thesis
  proof (intro conjI)
    show "(\<exists>x\<in>set ids. uuid_of uuid_in s x = None) \<longrightarrow>
            ?res = Inl DatabaseError
            \<and> bulk_download uuid_in s user ids = (Inl DatabaseError, s)"
      using err by (rule impI)
    show "(\<forall>x\<in>set ids. uuid_of uuid_in s x \<noteq> None) \<longrightarrow> (\<exists>rs. ?res = Inr rs)"
      using tot by (rule impI)
    show "?res = Inr rs \<longrightarrow>
        rs = filter (\<lambda>c. owner_user_id c = user_id user \<and> deleted_at c = None
                          \<and> (\<exists>x\<in>set ids. uuid_of uuid_in s x = Some (c_id c)))
                    (contracts s)
        \<and> (fst (bulk_download uuid_in s user ids) = ?nf
            \<longleftrightarrow> length rs \<noteq> length (remdups ids))
        \<and> (length rs \<noteq> length (remdups ids) \<longrightarrow>
             bulk_download uuid_in s user ids = (?nf, s))
        \<and> (length rs = length (remdups ids) \<longrightarrow>
             bulk_download uuid_in s user ids =
               (Inr (map (\<lambda>c. (''contract_'' @ c_id c @ ''.html'', ?g (c_id c))) rs), s))
        \<and> (\<forall>c\<in>set rs. versions_of s (c_id c) = [] \<longrightarrow> ?g (c_id c) = [])"
    proof
      assume r: "?res = Inr rs"
      show "rs = filter (\<lambda>c. owner_user_id c = user_id user \<and> deleted_at c = None
                          \<and> (\<exists>x\<in>set ids. uuid_of uuid_in s x = Some (c_id c)))
                    (contracts s)
        \<and> (fst (bulk_download uuid_in s user ids) = ?nf
            \<longleftrightarrow> length rs \<noteq> length (remdups ids))
        \<and> (length rs \<noteq> length (remdups ids) \<longrightarrow>
             bulk_download uuid_in s user ids = (?nf, s))
        \<and> (length rs = length (remdups ids) \<longrightarrow>
             bulk_download uuid_in s user ids =
               (Inr (map (\<lambda>c. (''contract_'' @ c_id c @ ''.html'', ?g (c_id c))) rs), s))
        \<and> (\<forall>c\<in>set rs. versions_of s (c_id c) = [] \<longrightarrow> ?g (c_id c) = [])"
        using shape [OF r] iff [OF r] ok [OF r] bad [OF r] none [of rs]
        by (intro conjI impI) blast+
    qed
    show "fst (bulk_download uuid_in s user ids) = ?nf
       \<longleftrightarrow> (\<exists>rs. ?res = Inr rs \<and> length rs \<noteq> length (remdups ids))"
      by (rule glob)
  qed
qed

theorem bulk_download_outcomes_witness:
  "bulk_download uuid_std db_two u1 [''c1'', ''c2'', ''c1''] =
     (Inr [(''contract_c1.html'', ''second text''), (''contract_c2.html'', [])], db_two)
   \<and> bulk_download uuid_std db_two u1 [''c1'', ''c3''] =
     (Inl (ServiceError 404 ''Uno o mas contratos no fueron encontrados.''), db_two)
   \<and> bulk_download uuid_std db_uuid u1
        [''6F1E2D3C-0000-4000-8000-00000000000A'', ''6f1e2d3c-0000-4000-8000-00000000000b''] =
     (Inr [(''contract_6f1e2d3c-0000-4000-8000-00000000000a.html'', ''first text''),
           (''contract_6f1e2d3c-0000-4000-8000-00000000000b.html'', [])], db_uuid)
   \<and> bulk_download uuid_std db_uuid u1
        [''6f1e2d3c-0000-4000-8000-00000000000a'', ''6F1E2D3C-0000-4000-8000-00000000000A''] =
     (Inl (ServiceError 404 ''Uno o mas contratos no fueron encontrados.''), db_uuid)
   \<and> uuid_of uuid_std db_uuid ''not-a-uuid'' = None
   \<and> bulk_download uuid_std db_uuid u1
        [''6f1e2d3c-0000-4000-8000-00000000000a'', ''not-a-uuid''] =
     (Inl DatabaseError, db_uuid)"
proof -
  let ?a = "''6f1e2d3c-0000-4000-8000-00000000000a''"
  let ?A = "''6F1E2D3C-0000-4000-8000-00000000000A''"
  let ?b = "''6f1e2d3c-0000-4000-8000-00000000000b''"
  have r1: "repo_list_contracts_by_ids uuid_std db_two (user_id u1) [''c1'', ''c2'', ''c1''] =
              Inr [mk_contract ''c1'' ''u1'' ''DRAFT'', mk_contract ''c2'' ''u1'' ''GENERATED'']"
    by (simp add: example_defs repo_list_contracts_by_ids_def uuid_of_def stored_ids_def)
  have r2: "repo_list_contracts_by_ids uuid_std db_two (user_id u1) [''c1'', ''c3''] =
              Inr [mk_contract ''c1'' ''u1'' ''DRAFT'']"
    by (simp add: example_defs repo_list_contracts_by_ids_def uuid_of_def stored_ids_def)
  have up: "uuid_of uuid_std db_uuid ?A = Some ?a"
    by (simp add: uuid_of_def stored_ids_def example_defs uuid_std_def hex_class_def
          hex_lower_def)
  have sa: "uuid_of uuid_std db_uuid ?a = Some ?a" "uuid_of uuid_std db_uuid ?b = Some ?b"
    by (simp_all add: uuid_of_def stored_ids_def example_defs)
  have bad: "uuid_of uuid_std db_uuid ''not-a-uuid'' = None"
    by (simp add: uuid_of_def stored_ids_def example_defs uuid_std_def hex_class_def)
  have r3: "repo_list_contracts_by_ids uuid_std db_uuid (user_id u1) [?A, ?b] =
              Inr [mk_contract ?a ''u1'' ''DRAFT'', mk_contract ?b ''u1'' ''GENERATED'']"
    by (simp add: repo_list_contracts_by_ids_def up sa) (simp add: example_defs)
  have r4: "repo_list_contracts_by_ids uuid_std db_uuid (user_id u1) [?a, ?A] =
              Inr [mk_contract ?a ''u1'' ''DRAFT'']"
    by (simp add: repo_list_contracts_by_ids_def up sa) (simp add: example_defs)
  have l1: "repo_get_latest_version db_two ''c1'' = Some (mk_version ''v2'' ''c1'' 2 ''second text'')"
    by (simp add: example_defs repo_get_latest_version_def)
  have l2: "repo_get_latest_version db_two ''c2'' = None"
    by (simp add: example_defs repo_get_latest_version_def)
  have l3: "repo_get_latest_version db_uuid ?a =
              Some (mk_version ''6f1e2d3c-0000-4000-8000-0000000000f1'' ?a 1 ''first text'')"
    by (simp add: example_defs repo_get_latest_version_def)
  have l4: "repo_get_latest_version db_uuid ?b = None"
    by (simp add: example_defs repo_get_latest_version_def)
  have w1: "bulk_download uuid_std db_two u1 [''c1'', ''c2'', ''c1''] =
     (Inr [(''contract_c1.html'', ''second text''), (''contract_c2.html'', [])], db_two)"
    using bulk_download_outcomes
            [where uuid_in = uuid_std and s = db_two and user = u1
               and ids = "[''c1'', ''c2'', ''c1'']"
               and rs = "[mk_contract ''c1'' ''u1'' ''DRAFT'', mk_contract ''c2'' ''u1'' ''GENERATED'']"]
          r1
    by (simp add: l1 l2 mk_contract_def mk_version_def)
  have w2: "bulk_download uuid_std db_two u1 [''c1'', ''c3''] =
     (Inl (ServiceError 404 ''Uno o mas contratos no fueron encontrados.''), db_two)"
    using bulk_download_outcomes
            [where uuid_in = uuid_std and s = db_two and user = u1 and ids = "[''c1'', ''c3'']"
               and rs = "[mk_contract ''c1'' ''u1'' ''DRAFT'']"]
          r2
    by simp
  have w3: "bulk_download uuid_std db_uuid u1 [?A, ?b] =
     (Inr [(''contract_6f1e2d3c-0000-4000-8000-00000000000a.html'', ''first text''),
           (''contract_6f1e2d3c-0000-4000-8000-00000000000b.html'', [])], db_uuid)"
    using bulk_download_outcomes
            [where uuid_in = uuid_std and s = db_uuid and user = u1 and ids = "[?A, ?b]"
               and rs = "[mk_contract ?a ''u1'' ''DRAFT'', mk_contract ?b ''u1'' ''GENERATED'']"]
          r3
    by (simp add: l3 l4 mk_contract_def mk_version_def)
  have w4: "bulk_download uuid_std db_uuid u1 [?a, ?A] =
     (Inl (ServiceError 404 ''Uno o mas contratos no fueron encontrados.''), db_uuid)"
    using bulk_download_outcomes
            [where uuid_in = uuid_std and s = db_uuid and user = u1 and ids = "[?a, ?A]"
               and rs = "[mk_contract ?a ''u1'' ''DRAFT'']"]
          r4
    by simp
  have w5: "bulk_download uuid_std db_uuid u1 [?a, ''not-a-uuid''] = (Inl DatabaseError, db_uuid)"
    using bulk_download_outcomes
            [where uuid_in = uuid_std and s = db_uuid and user = u1
               and ids = "[?a, ''not-a-uuid'']"]
          bad
    by simp
  show ?thesis
    using w1 w2 w3 w4 bad w5 by (intro conjI)
qed

text \<open>
  Claim C8 as it is worded, with \<open>NotFound\<close> or an archive for every requested id list,
  fails on a list that holds a text that is no UUID: the first id is a contract of the
  requester, the second spells no id, and the call ends in a database error, neither in
  \<open>NotFound\<close> nor in an archive.
\<close>

theorem bulk_download_malformed_id_counterexample:
  "map c_id (contracts db_uuid) =
     [''6f1e2d3c-0000-4000-8000-00000000000a'', ''6f1e2d3c-0000-4000-8000-00000000000b'']
   \<and> map owner_user_id (contracts db_uuid) = [user_id u1, user_id u1]
   \<and> uuid_std ''not-a-uuid'' = None
   \<and> repo_list_contracts_by_ids uuid_std db_uuid (user_id u1)
        [''6f1e2d3c-0000-4000-8000-00000000000a'', ''not-a-uuid''] = Inl DatabaseError
   \<and> bulk_download uuid_std db_uuid u1
        [''6f1e2d3c-0000-4000-8000-00000000000a'', ''not-a-uuid''] =
       (Inl DatabaseError, db_uuid)"
  by (simp add: bulk_download_def repo_list_contracts_by_ids_def uuid_of_def stored_ids_def
        example_defs uuid_std_def hex_class_def)

section \<open>Public view\<close>

text \<open>
  Claim C10. The token given to \<open>public_view\<close> has no influence on its outcome: for every
  contract id and every two tokens the two calls return the same value or raise the same
  error.
\<close>

theorem public_view_ignores_token: "public_view s cid t1 = public_view s cid t2"
  by (simp add: public_view_def)

theorem public_view_ignores_token_witness:
  "public_view db_signing ''c1'' ''token-a'' = public_view db_signing ''c1'' ''token-b''
   \<and> fst (public_view db_signing ''c1'' ''token-a'') =
       Inr \<lparr>pv_id = ''c1'', pv_title = ''Lease'', pv_content = [],
            pv_party = mk_party ''p1'' ''c1'' ''SIGNED'' 1, pv_document_url = None\<rparr>
   \<and> public_view db_signing ''missing'' ''token-a'' = public_view db_signing ''missing'' []"
  using public_view_ignores_token
          [where s = db_signing and cid = "''c1''" and ?t1.0 = "''token-a''" and ?t2.0 = "''token-b''"]
        public_view_ignores_token
          [where s = db_signing and cid = "''missing''" and ?t1.0 = "''token-a''" and ?t2.0 = "[]"]
  by (simp add: public_view_def example_defs repo_get_contract_def repo_list_parties_def
                repo_get_latest_version_def)

end
